theory Spec2Isabelle
  imports Main "HOL-Library.Sublist"
begin

section \<open>Python strings\<close>

text \<open>
  A Python \<^verbatim>\<open>str\<close> is modelled as a \<^typ>\<open>string\<close>, each \<^typ>\<open>char\<close> read as a code
  point below 256. \<^verbatim>\<open>str.isspace\<close> holds below 256 for the code points 9 to 13, 28 to 32,
  133 and 160; \<^verbatim>\<open>str.lower\<close> maps A..Z and the Latin-1 capitals 192..222 (without 215)
  32 places up.
\<close>

definition isspace :: "char \<Rightarrow> bool" where
  "isspace c =
     (let n = (of_char c :: nat)
      in (9 \<le> n \<and> n \<le> 13) \<or> (28 \<le> n \<and> n \<le> 32) \<or> n = 133 \<or> n = 160)"

definition lstrip :: "string \<Rightarrow> string" where
  "lstrip s = dropWhile isspace s"

definition rstrip :: "string \<Rightarrow> string" where
  "rstrip s = rev (dropWhile isspace (rev s))"

definition strip :: "string \<Rightarrow> string" where
  "strip s = rstrip (lstrip s)"

definition lower_char :: "char \<Rightarrow> char" where
  "lower_char c =
     (let n = (of_char c :: nat)
      in if (65 \<le> n \<and> n \<le> 90) \<or> (192 \<le> n \<and> n \<le> 222 \<and> n \<noteq> 215)
         then char_of (n + 32) else c)"

definition lower :: "string \<Rightarrow> string" where
  "lower s = map lower_char s"

definition endswith :: "string \<Rightarrow> string \<Rightarrow> bool" where
  "endswith s suf = (length suf \<le> length s \<and> drop (length s - length suf) s = suf)"

text \<open>\<^verbatim>\<open>a or b\<close> on strings: the empty string is falsy.\<close>

definition str_or :: "string \<Rightarrow> string \<Rightarrow> string" where
  "str_or a b = (if a \<noteq> [] then a else b)"

text \<open>
  \<^verbatim>\<open>"\n\n" in content\<close> and \<^verbatim>\<open>content.replace("\n\n", "\n")\<close>: the replacement scans from
  the left and replaces non-overlapping occurrences.
\<close>

fun contains_nn :: "string \<Rightarrow> bool" where
  "contains_nn (a # b # cs) = ((a = CHR 0x0A \<and> b = CHR 0x0A) \<or> contains_nn (b # cs))"
| "contains_nn [a] = False"
| "contains_nn [] = False"

fun replace_nn :: "string \<Rightarrow> string" where
  "replace_nn (a # b # cs) =
     (if a = CHR 0x0A \<and> b = CHR 0x0A then CHR 0x0A # replace_nn cs
      else a # replace_nn (b # cs))"
| "replace_nn [a] = [a]"
| "replace_nn [] = []"

lemma length_replace_nn_le: "length (replace_nn s) \<le> length s"
  by (induction s rule: replace_nn.induct) auto

lemma length_replace_nn_less: "contains_nn s \<Longrightarrow> length (replace_nn s) < length s"
proof (induction s rule: replace_nn.induct)
  case (1 a b cs)
  show ?case
  proof (cases "a = CHR 0x0A \<and> b = CHR 0x0A")
    case True
    then show ?thesis
      using length_replace_nn_le [of cs] by simp
  next
    case False
    with "1.prems" have "contains_nn (b # cs)" by auto
    with "1.IH" False show ?thesis by auto
  qed
qed simp_all

text \<open>
  The loop of \<^verbatim>\<open>read_financial_document\<close>:
  \<^verbatim>\<open>while "\n\n" in content: content = content.replace("\n\n", "\n")\<close>.
  Each round shortens the text, so the loop ends.
\<close>

function collapse_blank_lines :: "string \<Rightarrow> string" where
  "collapse_blank_lines content =
     (if contains_nn content then collapse_blank_lines (replace_nn content) else content)"
  by pat_completeness auto
termination
  by (relation "measure length") (auto simp: length_replace_nn_less)

declare collapse_blank_lines.simps [simp del]

text \<open>
  What the specification asks of the loop, written from its words: every run of line
  breaks becomes one line break.
\<close>

fun squeeze_newlines :: "string \<Rightarrow> string" where
  "squeeze_newlines (a # b # cs) =
     (if a = CHR 0x0A \<and> b = CHR 0x0A then squeeze_newlines (b # cs)
      else a # squeeze_newlines (b # cs))"
| "squeeze_newlines [a] = [a]"
| "squeeze_newlines [] = []"

section \<open>The job store, the file system and the environment\<close>

text \<open>
  \<^verbatim>\<open>database.py\<close>: the four status strings of \<^verbatim>\<open>JobStatus\<close>, and a row of
  \<^verbatim>\<open>analysis_jobs\<close>. The primary key \<^verbatim>\<open>id\<close> is the key of the store's map; the two
  timestamps are left out (no operation reads them). A nullable column is an option.
\<close>

datatype JobStatus = PENDING | PROCESSING | COMPLETED | FAILED

record AnalysisJob =
  status :: JobStatus
  file_path :: string
  original_filename :: "string option"
  query :: "string option"
  result_text :: "string option"
  error_message :: "string option"

datatype node = RegularFile string | Directory

text \<open>
  A call into a collaborator (the crew, the PDF loader, the task queue) returns, raises
  an exception of class \<^verbatim>\<open>Exception\<close> (the string is \<^verbatim>\<open>str(e)\<close>), or raises one that
  only derives from \<^verbatim>\<open>BaseException\<close> (\<^verbatim>\<open>KeyboardInterrupt\<close>, \<^verbatim>\<open>SystemExit\<close>), which
  \<^verbatim>\<open>except Exception\<close> does not catch.
\<close>

datatype 'a call = Returned 'a | RaisedException string | RaisedBaseException string

text \<open>
  Saving an upload (\<^verbatim>\<open>open(file_path, "wb")\<close> and \<^verbatim>\<open>f.write(content)\<close>) succeeds, or
  fails with \<^verbatim>\<open>OSError\<close>: the string is \<^verbatim>\<open>str(e)\<close>, the option what the failed attempt
  left at the path (nothing when \<^verbatim>\<open>open\<close> failed, a partial file when the write did).
\<close>

datatype save_outcome = Saved | SaveError string "string option"

text \<open>What a function of the program raises to its caller.\<close>

datatype raised = HTTPException nat string | Propagated string

text \<open>
  The arguments of one \<^verbatim>\<open>run_analysis_task\<close> message, and the events the operations
  leave behind: a committed row, a crew kickoff, a call of \<^verbatim>\<open>os.remove\<close>.
\<close>

record task_args =
  arg_job_id :: string
  arg_file_path :: string
  arg_query :: string
  arg_original_filename :: "string option"

datatype event =
  Committed string AnalysisJob
| Kickoff string string
| RemoveCall string

record world =
  jobs :: "string \<rightharpoonup> AnalysisJob"
  fs :: "string \<rightharpoonup> node"
  broker :: "task_args list"
  events :: "event list"

text \<open>
  The environment decides what the program does not: the outcome of
  \<^verbatim>\<open>str(crew.kickoff(inputs))\<close> for a query and a path (it may depend on the files),
  the pages \<^verbatim>\<open>PyPDFLoader(path).load()\<close> yields (each page's \<^verbatim>\<open>page_content\<close>), whether
  \<^verbatim>\<open>os.remove\<close> fails with \<^verbatim>\<open>OSError\<close>, how saving content at a path ends,
  the outcome of \<^verbatim>\<open>run_analysis_task.delay\<close>, the identifier \<^verbatim>\<open>uuid.uuid4()\<close> draws
  (adding the row stores it under that identifier), and \<^verbatim>\<open>UPLOAD_DIR\<close>. The session's
  \<^verbatim>\<open>query\<close> and \<^verbatim>\<open>commit\<close> are taken to succeed, and the crew to leave the files and
  the store as they are.
\<close>

record env =
  crew_kickoff :: "(string \<rightharpoonup> node) \<Rightarrow> string \<Rightarrow> string \<Rightarrow> string call"
  pdf_load :: "(string \<rightharpoonup> node) \<Rightarrow> string \<Rightarrow> string option list call"
  remove_fails :: "string \<Rightarrow> bool"
  save_upload :: "string \<Rightarrow> string \<Rightarrow> save_outcome"
  delay_outcome :: "unit call"
  uuid4 :: string
  upload_dir :: string

definition os_path_isfile :: "world \<Rightarrow> string \<Rightarrow> bool" where
  "os_path_isfile w p = (p \<noteq> [] \<and> (case fs w p of Some (RegularFile c) \<Rightarrow> True | _ \<Rightarrow> False))"

definition os_path_exists :: "world \<Rightarrow> string \<Rightarrow> bool" where
  "os_path_exists w p = (p \<noteq> [] \<and> fs w p \<noteq> None)"

text \<open>
  \<^verbatim>\<open>os.remove(p)\<close>: the call is recorded; it fails (\<^verbatim>\<open>Inl\<close> is the \<^verbatim>\<open>OSError\<close>) when
  the environment says so or when \<^verbatim>\<open>p\<close> is not a regular file, and then changes nothing.
\<close>

definition os_remove :: "env \<Rightarrow> string \<Rightarrow> world \<Rightarrow> (unit + unit) \<times> world" where
  "os_remove e p w =
     (let w' = w\<lparr>events := events w @ [RemoveCall p]\<rparr>
      in if remove_fails e p \<or> \<not> os_path_isfile w p then (Inl (), w')
         else (Inr (), w'\<lparr>fs := (fs w)(p := None)\<rparr>))"

text \<open>
  \<^verbatim>\<open>if os.path.exists(p): try: os.remove(p) except OSError: pass\<close>, the clean-up all three
  operations share.
\<close>

definition remove_if_exists :: "env \<Rightarrow> string \<Rightarrow> world \<Rightarrow> world" where
  "remove_if_exists e p w = (if os_path_exists w p then snd (os_remove e p w) else w)"

text \<open>\<^verbatim>\<open>db.commit()\<close> after a change of the row \<^verbatim>\<open>job\<close> with primary key \<^verbatim>\<open>job_id\<close>.\<close>

definition commit :: "string \<Rightarrow> AnalysisJob \<Rightarrow> world \<Rightarrow> world" where
  "commit job_id job w =
     w\<lparr>jobs := (jobs w)(job_id \<mapsto> job), events := events w @ [Committed job_id job]\<rparr>"

text \<open>
  \<^verbatim>\<open>_run_crew_sync\<close> of \<^verbatim>\<open>celery_tasks.py\<close> and \<^verbatim>\<open>run_crew\<close> of \<^verbatim>\<open>main.py\<close> (the same
  body): build the crew, kick it off with the query and the path, return \<^verbatim>\<open>str(result)\<close>.
\<close>

definition run_crew :: "env \<Rightarrow> string \<Rightarrow> string \<Rightarrow> world \<Rightarrow> string call \<times> world" where
  "run_crew e q p w =
     (crew_kickoff e (fs w) q p, w\<lparr>events := events w @ [Kickoff q p]\<rparr>)"

section \<open>The extractor (tools.py)\<close>

definition page_text :: "string option \<Rightarrow> string" where
  "page_text page_content = (case page_content of None \<Rightarrow> [] | Some c \<Rightarrow> c)"

definition full_report :: "string option list \<Rightarrow> string" where
  "full_report docs =
     foldl (\<lambda>acc d. acc @ collapse_blank_lines (page_text d) @ [CHR 0x0A]) [] docs"

definition read_financial_document :: "env \<Rightarrow> world \<Rightarrow> string \<Rightarrow> raised + string" where
  "read_financial_document e w path =
     (if path = [] \<or> \<not> os_path_isfile w path
      then Inr (''Error: File not found at path: '' @ path)
      else (case pdf_load e (fs w) path of
              Returned docs \<Rightarrow>
                Inr (str_or (strip (full_report docs)) ''(No text extracted from PDF)'')
            | RaisedException m \<Rightarrow> Inl (Propagated m)
            | RaisedBaseException m \<Rightarrow> Inl (Propagated m)))"

section \<open>The worker (celery_tasks.py)\<close>

text \<open>
  The two dictionaries the task returns: \<^verbatim>\<open>{"ok": False, "error": msg}\<close> and
  \<^verbatim>\<open>{"ok": b, "job_id": job_id}\<close>.
\<close>

datatype task_return = ErrorDict string | StatusDict bool string

text \<open>The body of the \<^verbatim>\<open>try\<close> of \<^verbatim>\<open>run_analysis_task\<close>, lines 29 to 51.\<close>

definition run_analysis_try ::
  "env \<Rightarrow> string \<Rightarrow> string \<Rightarrow> string \<Rightarrow> world \<Rightarrow> (raised + task_return) \<times> world" where
  "run_analysis_try e job_id fpath q w =
     (case jobs w job_id of
        None \<Rightarrow> (Inr (ErrorDict ''Job not found''), w)
      | Some job \<Rightarrow>
          (let job1 = job\<lparr>status := PROCESSING\<rparr>;
               w1 = commit job_id job1 w
           in if \<not> os_path_isfile w1 fpath
              then (let msg = ''File not found: '' @ fpath;
                        job2 = job1\<lparr>status := FAILED, error_message := Some msg\<rparr>
                    in (Inr (ErrorDict msg), commit job_id job2 w1))
              else (case run_crew e q fpath w1 of
                      (Returned result, w2) \<Rightarrow>
                        (let job2 = job1\<lparr>status := COMPLETED, result_text := Some result,
                                         error_message := None\<rparr>
                         in (Inr (StatusDict (status job2 = COMPLETED) job_id),
                             commit job_id job2 w2))
                    | (RaisedException m, w2) \<Rightarrow>
                        (let job2 = job1\<lparr>status := FAILED, error_message := Some m\<rparr>
                         in (Inr (StatusDict (status job2 = COMPLETED) job_id),
                             commit job_id job2 w2))
                    | (RaisedBaseException m, w2) \<Rightarrow> (Inl (Propagated m), w2))))"

text \<open>
  The \<^verbatim>\<open>finally\<close> of \<^verbatim>\<open>run_analysis_task\<close>, lines 52 to 59 (\<^verbatim>\<open>db.close()\<close> has nothing to
  roll back: every change was committed).
\<close>

definition run_analysis_finally :: "env \<Rightarrow> string \<Rightarrow> world \<Rightarrow> world" where
  "run_analysis_finally e fpath w = (if fpath \<noteq> [] then remove_if_exists e fpath w else w)"

definition run_analysis_task ::
  "env \<Rightarrow> string \<Rightarrow> string \<Rightarrow> string \<Rightarrow> world \<Rightarrow> (raised + task_return) \<times> world" where
  "run_analysis_task e job_id fpath q w =
     (let (r, w') = run_analysis_try e job_id fpath q w
      in (r, run_analysis_finally e fpath w'))"

section \<open>The gateway (main.py)\<close>

record upload_request =
  upload_filename :: "string option"
  upload_content :: string
  form_query :: "string option"

datatype response =
  SyncResult string string string "string option"
| AnalyzeResponse string JobStatus string

definition default_query :: string where
  "default_query = ''Analyze this financial document for investment insights''"

text \<open>\<^verbatim>\<open>Form(default=...)\<close>: an absent form field takes the default.\<close>

definition form_default :: "string option \<Rightarrow> string" where
  "form_default fq = (case fq of None \<Rightarrow> default_query | Some q \<Rightarrow> q)"

text \<open>\<^verbatim>\<open>(query or "").strip() or "Analyze this financial document for investment insights"\<close>\<close>

definition normalize_query :: "string \<Rightarrow> string" where
  "normalize_query q = str_or (strip (str_or q [])) default_query"

text \<open>\<^verbatim>\<open>not file.filename or not file.filename.lower().endswith(".pdf")\<close>\<close>

definition not_a_pdf :: "string option \<Rightarrow> bool" where
  "not_a_pdf filename =
     (case filename of None \<Rightarrow> True | Some n \<Rightarrow> n = [] \<or> \<not> endswith (lower n) ''.pdf'')"

text \<open>\<^verbatim>\<open>os.path.join(a, b)\<close> for a relative \<^verbatim>\<open>b\<close>.\<close>

definition os_path_join :: "string \<Rightarrow> string \<Rightarrow> string" where
  "os_path_join a b = (if a = [] \<or> last a = CHR ''/'' then a @ b else a @ ''/'' @ b)"

definition upload_path :: "env \<Rightarrow> string \<Rightarrow> string" where
  "upload_path e ident = os_path_join (upload_dir e) (''financial_document_'' @ ident @ ''.pdf'')"

definition save_file :: "env \<Rightarrow> string \<Rightarrow> string \<Rightarrow> world \<Rightarrow> (string + unit) \<times> world" where
  "save_file e p content w =
     (case save_upload e p content of
        Saved \<Rightarrow> (Inr (), w\<lparr>fs := (fs w)(p \<mapsto> RegularFile content)\<rparr>)
      | SaveError m left \<Rightarrow>
          (Inl m, (case left of None \<Rightarrow> w
                   | Some c \<Rightarrow> w\<lparr>fs := (fs w)(p \<mapsto> RegularFile c)\<rparr>)))"

text \<open>\<^verbatim>\<open>POST /analyze/sync\<close>: the \<^verbatim>\<open>try\<close> around the crew, then its \<^verbatim>\<open>finally\<close>.\<close>

definition analyze_sync :: "env \<Rightarrow> upload_request \<Rightarrow> world \<Rightarrow> (raised + response) \<times> world" where
  "analyze_sync e req w =
     (if not_a_pdf (upload_filename req)
      then (Inl (HTTPException 400 ''A PDF file is required.''), w)
      else
        (let fpath = upload_path e (uuid4 e)
         in case save_file e fpath (upload_content req) w of
              (Inl m, w1) \<Rightarrow> (Inl (HTTPException 500 (''Failed to save file: '' @ m)), w1)
            | (Inr u, w1) \<Rightarrow>
                (let q = normalize_query (form_default (form_query req));
                     (r, w2) =
                       (case run_crew e q fpath w1 of
                          (Returned resp, w2) \<Rightarrow>
                            (Inr (SyncResult ''success'' q resp (upload_filename req)), w2)
                        | (RaisedException m, w2) \<Rightarrow>
                            (Inl (HTTPException 500 (''Error processing document: '' @ m)), w2)
                        | (RaisedBaseException m, w2) \<Rightarrow> (Inl (Propagated m), w2))
                 in (r, remove_if_exists e fpath w2))))"

text \<open>\<^verbatim>\<open>POST /analyze\<close>: save the upload, add the row, enqueue the task.\<close>

definition analyze_async :: "env \<Rightarrow> upload_request \<Rightarrow> world \<Rightarrow> (raised + response) \<times> world" where
  "analyze_async e req w =
     (if not_a_pdf (upload_filename req)
      then (Inl (HTTPException 400 ''A PDF file is required.''), w)
      else
        (let job_id = uuid4 e;
             fpath = upload_path e job_id
         in case save_file e fpath (upload_content req) w of
              (Inl m, w1) \<Rightarrow> (Inl (HTTPException 500 (''Failed to save file: '' @ m)), w1)
            | (Inr u, w1) \<Rightarrow>
                (let q = normalize_query (form_default (form_query req));
                     job = \<lparr>status = PENDING, file_path = fpath,
                            original_filename = upload_filename req, query = Some q,
                            result_text = None, error_message = None\<rparr>;
                     w2 = commit job_id job w1;
                     args = \<lparr>arg_job_id = job_id, arg_file_path = fpath, arg_query = q,
                             arg_original_filename = upload_filename req\<rparr>
                 in case delay_outcome e of
                      Returned u \<Rightarrow>
                        (Inr (AnalyzeResponse job_id PENDING
                                ''Analysis queued. Poll GET /analyze/{job_id} for result.''),
                         w2\<lparr>broker := broker w2 @ [args]\<rparr>)
                    | RaisedException m \<Rightarrow>
                        (let job' = job\<lparr>status := FAILED,
                                        error_message := Some (''Failed to enqueue: '' @ m)\<rparr>;
                             w3 = commit job_id job' w2
                         in (Inl (HTTPException 503 ''Queue unavailable; try /analyze/sync''),
                             remove_if_exists e fpath w3))
                    | RaisedBaseException m \<Rightarrow> (Inl (Propagated m), w2))))"

text \<open>
  \<^verbatim>\<open>GET /analyze/{job_id}\<close>: the dictionary \<^verbatim>\<open>out\<close>, without the timestamps. The key
  \<^verbatim>\<open>analysis\<close> is present for a completed job (its value the nullable column), the key
  \<^verbatim>\<open>error\<close> for a failed job with a non-empty message.
\<close>

record job_view =
  view_job_id :: string
  view_status :: JobStatus
  view_query :: "string option"
  view_file_processed :: "string option"
  view_analysis :: "string option option"
  view_error :: "string option"

definition get_analysis_result :: "string \<Rightarrow> world \<Rightarrow> raised + job_view" where
  "get_analysis_result job_id w =
     (case jobs w job_id of
        None \<Rightarrow> Inl (HTTPException 404 ''Job not found'')
      | Some job \<Rightarrow>
          Inr \<lparr>view_job_id = job_id, view_status = status job, view_query = query job,
               view_file_processed = original_filename job,
               view_analysis = (if status job = COMPLETED then Some (result_text job) else None),
               view_error =
                 (if status job = FAILED \<and> error_message job \<noteq> None
                     \<and> error_message job \<noteq> Some []
                  then error_message job else None)\<rparr>)"

section \<open>Observing a run\<close>

text \<open>
  The events an operation adds to a world, and the tests that pick the crew kickoffs, the
  calls of \<^verbatim>\<open>os.remove\<close> and the committed rows out of them.
\<close>

fun is_kickoff :: "event \<Rightarrow> bool" where
  "is_kickoff (Kickoff q p) = True"
| "is_kickoff ev = False"

fun is_remove :: "event \<Rightarrow> bool" where
  "is_remove (RemoveCall p) = True"
| "is_remove ev = False"

definition new_events :: "world \<Rightarrow> world \<Rightarrow> event list" where
  "new_events w w' = drop (length (events w)) (events w')"

fun committed_rows :: "event list \<Rightarrow> AnalysisJob list" where
  "committed_rows [] = []"
| "committed_rows (Committed job_id job # evs) = job # committed_rows evs"
| "committed_rows (ev # evs) = committed_rows evs"

text \<open>
  A nullable text column is set when it holds a non-empty string: the reading of the
  specification (exactly one of the two is non-empty) and of \<^verbatim>\<open>get_analysis_result\<close>,
  which tests \<^verbatim>\<open>job.error_message\<close> for truth. The invariant of a row: a completed row
  has its result set and its error unset, a failed row its error set and its result
  unset, a pending or processing row neither set. A store satisfies it when all its rows
  do.
\<close>

definition is_set :: "string option \<Rightarrow> bool" where
  "is_set column = (column \<noteq> None \<and> column \<noteq> Some [])"

definition job_inv :: "AnalysisJob \<Rightarrow> bool" where
  "job_inv job =
     (case status job of
        COMPLETED \<Rightarrow> is_set (result_text job) \<and> \<not> is_set (error_message job)
      | FAILED \<Rightarrow> is_set (error_message job) \<and> \<not> is_set (result_text job)
      | PENDING \<Rightarrow> \<not> is_set (result_text job) \<and> \<not> is_set (error_message job)
      | PROCESSING \<Rightarrow> \<not> is_set (result_text job) \<and> \<not> is_set (error_message job))"

definition store_inv :: "world \<Rightarrow> bool" where
  "store_inv w = (\<forall>k job. jobs w k = Some job \<longrightarrow> job_inv job)"

text \<open>A blank query: the form field is absent, empty, or holds white space only.\<close>

definition blank_query :: "string option \<Rightarrow> bool" where
  "blank_query fq = (case fq of None \<Rightarrow> True | Some s \<Rightarrow> list_all isspace s)"

text \<open>
  A small concrete setting: an environment in which every collaborator succeeds, a
  pending job as the gateway creates it, and worlds with and without its file.
\<close>

definition env0 :: env where
  "env0 = \<lparr>crew_kickoff = (\<lambda>files q p. Returned ''report''),
           pdf_load = (\<lambda>files p. Returned [Some ''page'']),
           remove_fails = (\<lambda>p. False),
           save_upload = (\<lambda>p c. Saved),
           delay_outcome = Returned (),
           uuid4 = ''u1'',
           upload_dir = ''data/uploads''\<rparr>"

definition job0 :: AnalysisJob where
  "job0 = \<lparr>status = PENDING, file_path = ''data/uploads/financial_document_u1.pdf'',
           original_filename = Some ''r.pdf'', query = Some ''Summarize this report'',
           result_text = None, error_message = None\<rparr>"

definition world0 :: world where
  "world0 = \<lparr>jobs = [''u1'' \<mapsto> job0], fs = Map.empty, broker = [], events = []\<rparr>"

definition world1 :: world where
  "world1 = world0\<lparr>fs := [file_path job0 \<mapsto> RegularFile ''%PDF'']\<rparr>"

definition env_pages :: "string option list call \<Rightarrow> env" where
  "env_pages outcome = env0\<lparr>pdf_load := (\<lambda>files p. outcome)\<rparr>"

definition env_crew :: "string call \<Rightarrow> env" where
  "env_crew outcome = env0\<lparr>crew_kickoff := (\<lambda>files q p. outcome)\<rparr>"

definition env_remove_fails :: env where
  "env_remove_fails = env0\<lparr>remove_fails := (\<lambda>p. True)\<rparr>"

definition world_orphan :: world where
  "world_orphan = world1\<lparr>jobs := Map.empty\<rparr>"

definition request0 :: upload_request where
  "request0 = \<lparr>upload_filename = Some ''r.pdf'', upload_content = ''%PDF'',
               form_query = Some ''Summarize this report''\<rparr>"

definition job_done :: AnalysisJob where
  "job_done = job0\<lparr>status := COMPLETED, result_text := Some ''report''\<rparr>"

definition world_done :: world where
  "world_done = world0\<lparr>jobs := [''u1'' \<mapsto> job_done]\<rparr>"

definition request_blank :: upload_request where
  "request_blank = request0\<lparr>form_query := Some '' \<newline>''\<rparr>"

definition request_txt :: upload_request where
  "request_txt = request0\<lparr>upload_filename := Some ''notes.txt''\<rparr>"

definition env_queue_down :: env where
  "env_queue_down = env0\<lparr>delay_outcome := RaisedException ''Connection refused''\<rparr>"

definition env_queue_down_remove_fails :: env where
  "env_queue_down_remove_fails = env_queue_down\<lparr>remove_fails := (\<lambda>p. True)\<rparr>"

definition world_empty :: world where
  "world_empty = \<lparr>jobs = Map.empty, fs = Map.empty, broker = [], events = []\<rparr>"

section \<open>The blank-line loop of the extractor\<close>

lemma collapse_no_blank_line: "\<not> contains_nn (collapse_blank_lines s)"
proof (induction s rule: collapse_blank_lines.induct)
  case (1 content)
  then show ?case
    by (cases "contains_nn content") (simp_all add: collapse_blank_lines.simps [of content])
qed

lemma squeeze_cons_replace:
  "squeeze_newlines (c # replace_nn xs) = squeeze_newlines (c # xs)"
proof (induction xs arbitrary: c rule: replace_nn.induct)
  case (1 a b cs)
  show ?case
  proof (cases "a = CHR 0x0A \<and> b = CHR 0x0A")
    case True
    then have rep: "replace_nn (a # b # cs) = CHR 0x0A # replace_nn cs"
      by simp
    have ih: "squeeze_newlines (CHR 0x0A # replace_nn cs) = squeeze_newlines (CHR 0x0A # cs)"
      using "1.IH"(1) [OF True] .
    have "squeeze_newlines (c # CHR 0x0A # replace_nn cs) =
        (if c = CHR 0x0A then squeeze_newlines (CHR 0x0A # cs)
         else c # squeeze_newlines (CHR 0x0A # cs))"
      by (simp add: ih)
    moreover have "squeeze_newlines (c # a # b # cs) =
        (if c = CHR 0x0A then squeeze_newlines (CHR 0x0A # cs)
         else c # squeeze_newlines (CHR 0x0A # cs))"
      using True by simp
    ultimately show ?thesis
      by (simp only: rep)
  next
    case False
    then have rep: "replace_nn (a # b # cs) = a # replace_nn (b # cs)"
      by auto
    have ih: "squeeze_newlines (a # replace_nn (b # cs)) = squeeze_newlines (a # b # cs)"
      using "1.IH"(2) [OF False] .
    show ?thesis
      by (simp only: rep squeeze_newlines.simps(1) [of c a] ih)
  qed
qed simp_all

lemma squeeze_replace: "squeeze_newlines (replace_nn xs) = squeeze_newlines xs"
  by (cases xs rule: replace_nn.cases) (simp_all add: squeeze_cons_replace)

lemma squeeze_fixed: "\<not> contains_nn s \<Longrightarrow> squeeze_newlines s = s"
  by (induction s rule: squeeze_newlines.induct) auto

lemma collapse_is_squeeze: "collapse_blank_lines s = squeeze_newlines s"
proof (induction s rule: collapse_blank_lines.induct)
  case (1 content)
  show ?case
  proof (cases "contains_nn content")
    case True
    with "1.IH" show ?thesis
      by (simp add: collapse_blank_lines.simps [of content] squeeze_replace)
  next
    case False
    then show ?thesis
      by (simp add: collapse_blank_lines.simps [of content] squeeze_fixed)
  qed
qed

lemma foldl_append_concat:
  "foldl (\<lambda>acc d. acc @ f d) a docs = a @ concat (map f docs)"
  by (induction docs arbitrary: a) simp_all

lemma full_report_concat:
  "full_report docs = concat (map (\<lambda>d. squeeze_newlines (page_text d) @ [CHR 0x0A]) docs)"
  by (simp add: full_report_def foldl_append_concat collapse_is_squeeze)

lemma str_or_nonempty: "b \<noteq> [] \<Longrightarrow> str_or a b \<noteq> []"
  by (simp add: str_or_def)

section \<open>The branches of the worker\<close>

lemma run_analysis_try_no_job:
  "jobs w job_id = None \<Longrightarrow>
   run_analysis_try e job_id fpath q w = (Inr (ErrorDict ''Job not found''), w)"
  by (simp add: run_analysis_try_def)

lemma isfile_commit [simp]: "os_path_isfile (commit job_id job w) p = os_path_isfile w p"
  by (simp add: os_path_isfile_def commit_def)

lemma run_analysis_try_missing:
  "jobs w job_id = Some job \<Longrightarrow> \<not> os_path_isfile w fpath \<Longrightarrow>
   run_analysis_try e job_id fpath q w =
     (Inr (ErrorDict (''File not found: '' @ fpath)),
      commit job_id (job\<lparr>status := FAILED, error_message := Some (''File not found: '' @ fpath)\<rparr>)
        (commit job_id (job\<lparr>status := PROCESSING\<rparr>) w))"
  by (simp add: run_analysis_try_def Let_def)

lemma fs_commit [simp]: "fs (commit job_id job w) = fs w"
  by (simp add: commit_def)

lemma jobs_commit [simp]: "jobs (commit job_id job w) = (jobs w)(job_id \<mapsto> job)"
  by (simp add: commit_def)

lemma events_commit [simp]:
  "events (commit job_id job w) = events w @ [Committed job_id job]"
  by (simp add: commit_def)

lemma fst_run_crew [simp]: "fst (run_crew e q p w) = crew_kickoff e (fs w) q p"
  by (simp add: run_crew_def)

lemma fs_run_crew [simp]: "fs (snd (run_crew e q p w)) = fs w"
  by (simp add: run_crew_def)

lemma jobs_run_crew [simp]: "jobs (snd (run_crew e q p w)) = jobs w"
  by (simp add: run_crew_def)

lemma events_run_crew [simp]: "events (snd (run_crew e q p w)) = events w @ [Kickoff q p]"
  by (simp add: run_crew_def)

lemma run_analysis_try_returned:
  "jobs w job_id = Some job \<Longrightarrow> os_path_isfile w fpath \<Longrightarrow>
   crew_kickoff e (fs w) q fpath = Returned result \<Longrightarrow>
   run_analysis_try e job_id fpath q w =
     (Inr (StatusDict True job_id),
      commit job_id (job\<lparr>status := COMPLETED, result_text := Some result, error_message := None\<rparr>)
        (snd (run_crew e q fpath (commit job_id (job\<lparr>status := PROCESSING\<rparr>) w))))"
  by (simp add: run_analysis_try_def Let_def split: prod.splits call.splits)
     (auto simp: run_crew_def)

lemma run_analysis_try_exception:
  "jobs w job_id = Some job \<Longrightarrow> os_path_isfile w fpath \<Longrightarrow>
   crew_kickoff e (fs w) q fpath = RaisedException m \<Longrightarrow>
   run_analysis_try e job_id fpath q w =
     (Inr (StatusDict False job_id),
      commit job_id (job\<lparr>status := FAILED, error_message := Some m\<rparr>)
        (snd (run_crew e q fpath (commit job_id (job\<lparr>status := PROCESSING\<rparr>) w))))"
  by (simp add: run_analysis_try_def Let_def split: prod.splits call.splits)
     (auto simp: run_crew_def)

lemma run_analysis_try_base_exception:
  "jobs w job_id = Some job \<Longrightarrow> os_path_isfile w fpath \<Longrightarrow>
   crew_kickoff e (fs w) q fpath = RaisedBaseException m \<Longrightarrow>
   run_analysis_try e job_id fpath q w =
     (Inl (Propagated m),
      snd (run_crew e q fpath (commit job_id (job\<lparr>status := PROCESSING\<rparr>) w)))"
  by (simp add: run_analysis_try_def Let_def split: prod.splits call.splits)
     (auto simp: run_crew_def)

lemma finally_jobs [simp]: "jobs (run_analysis_finally e p w) = jobs w"
  by (simp add: run_analysis_finally_def remove_if_exists_def os_remove_def Let_def)

lemma finally_events:
  "events (run_analysis_finally e p w) =
     events w @ (if os_path_exists w p then [RemoveCall p] else [])"
  by (simp add: run_analysis_finally_def remove_if_exists_def os_remove_def Let_def os_path_exists_def)

lemma run_analysis_task_split:
  "run_analysis_task e job_id fpath q w =
     (fst (run_analysis_try e job_id fpath q w),
      run_analysis_finally e fpath (snd (run_analysis_try e job_id fpath q w)))"
  by (simp add: run_analysis_task_def split: prod.splits)

lemma exists_commit [simp]: "os_path_exists (commit job_id job w) p = os_path_exists w p"
  by (simp add: os_path_exists_def)

lemma isfile_run_crew [simp]: "os_path_isfile (snd (run_crew e q p' w)) p = os_path_isfile w p"
  by (simp add: os_path_isfile_def)

lemma exists_run_crew [simp]: "os_path_exists (snd (run_crew e q p' w)) p = os_path_exists w p"
  by (simp add: os_path_exists_def)

lemma isfile_exists: "os_path_isfile w p \<Longrightarrow> os_path_exists w p"
  by (auto simp: os_path_isfile_def os_path_exists_def split: option.splits)

lemma isfile_nonempty: "os_path_isfile w p \<Longrightarrow> p \<noteq> []"
  by (simp add: os_path_isfile_def)

text \<open>What the try block leaves: the store and the events change, the files do not.\<close>

lemma fs_run_analysis_try [simp]: "fs (snd (run_analysis_try e job_id fpath q w)) = fs w"
  by (simp add: run_analysis_try_def Let_def split: option.splits prod.splits call.splits)
     (auto simp: run_crew_def commit_def)

lemma isfile_run_analysis_try [simp]:
  "os_path_isfile (snd (run_analysis_try e job_id fpath q w)) p = os_path_isfile w p"
  by (simp add: os_path_isfile_def)

lemma exists_run_analysis_try [simp]:
  "os_path_exists (snd (run_analysis_try e job_id fpath q w)) p = os_path_exists w p"
  by (simp add: os_path_exists_def)

lemma remove_fails_irrelevant_try [simp]:
  "run_analysis_try (e\<lparr>remove_fails := f\<rparr>) job_id fpath q w = run_analysis_try e job_id fpath q w"
  by (simp add: run_analysis_try_def run_crew_def Let_def split: option.splits)

text \<open>The clean-up on a regular file: one call, and the file goes unless the call fails.\<close>

lemma remove_if_exists_file:
  "os_path_isfile w p \<Longrightarrow>
   remove_if_exists e p w =
     (if remove_fails e p then w\<lparr>events := events w @ [RemoveCall p]\<rparr>
      else w\<lparr>events := events w @ [RemoveCall p], fs := (fs w)(p := None)\<rparr>)"
  by (simp add: remove_if_exists_def os_remove_def Let_def isfile_exists)

lemma remove_if_exists_jobs [simp]: "jobs (remove_if_exists e p w) = jobs w"
  by (simp add: remove_if_exists_def os_remove_def Let_def)

lemma remove_if_exists_broker [simp]: "broker (remove_if_exists e p w) = broker w"
  by (simp add: remove_if_exists_def os_remove_def Let_def)

lemma remove_if_exists_events:
  "events (remove_if_exists e p w) =
     events w @ (if os_path_exists w p then [RemoveCall p] else [])"
  by (simp add: remove_if_exists_def os_remove_def Let_def)

lemma remove_if_exists_gone:
  "\<not> remove_fails e p \<Longrightarrow> fs w p \<noteq> Some Directory \<Longrightarrow>
   \<not> os_path_exists (remove_if_exists e p w) p"
  by (cases "fs w p"; cases "p = []")
     (auto simp: remove_if_exists_def os_remove_def Let_def os_path_exists_def
        os_path_isfile_def split: node.splits)

lemma remove_if_exists_stays:
  "remove_fails e p \<Longrightarrow> os_path_isfile (remove_if_exists e p w) p = os_path_isfile w p"
  by (simp add: remove_if_exists_def os_remove_def Let_def os_path_isfile_def)

lemma new_events_append [simp]: "events w' = events w @ evs \<Longrightarrow> new_events w w' = evs"
  by (simp add: new_events_def)

text \<open>The events of the try block, branch by branch: commits and at most one kickoff.\<close>

lemma events_run_analysis_try:
  "\<exists>evs. events (snd (run_analysis_try e job_id fpath q w)) = events w @ evs
         \<and> filter is_remove evs = []"
  by (simp add: run_analysis_try_def Let_def split: option.splits prod.splits call.splits)
     (auto simp: run_crew_def commit_def)

lemma upload_path_nonempty [simp]: "upload_path e ident \<noteq> []"
  by (simp add: upload_path_def os_path_join_def)

lemma events_finally:
  "events (run_analysis_finally e p w) =
     events w @ (if os_path_exists w p then [RemoveCall p] else [])"
  by (simp add: run_analysis_finally_def remove_if_exists_events os_path_exists_def)

lemma finally_file:
  "os_path_isfile w p \<Longrightarrow> run_analysis_finally e p w = remove_if_exists e p w"
  by (simp add: run_analysis_finally_def isfile_nonempty)

lemma run_analysis_try_raises:
  "(\<exists>x. fst (run_analysis_try e job_id fpath q w) = Inl x) \<longleftrightarrow>
     jobs w job_id \<noteq> None \<and> os_path_isfile w fpath
     \<and> (\<exists>m. crew_kickoff e (fs w) q fpath = RaisedBaseException m)"
  by (cases "jobs w job_id"; cases "os_path_isfile w fpath"; cases "crew_kickoff e (fs w) q fpath")
     (simp_all add: run_analysis_try_no_job run_analysis_try_missing run_analysis_try_returned
        run_analysis_try_exception run_analysis_try_base_exception)

lemma filter_remove_try:
  "filter is_remove (new_events w (snd (run_analysis_try e job_id fpath q w))) = []"
proof -
  from events_run_analysis_try [of e job_id fpath q w]
  obtain evs where "events (snd (run_analysis_try e job_id fpath q w)) = events w @ evs"
    and "filter is_remove evs = []" by blast
  then show ?thesis by simp
qed

lemma new_events_run_analysis_task:
  "new_events w (snd (run_analysis_task e job_id fpath q w)) =
     new_events w (snd (run_analysis_try e job_id fpath q w))
     @ (if os_path_exists w fpath then [RemoveCall fpath] else [])"
proof -
  from events_run_analysis_try [of e job_id fpath q w]
  obtain evs where evs: "events (snd (run_analysis_try e job_id fpath q w)) = events w @ evs"
    by blast
  then show ?thesis
    by (simp add: run_analysis_task_split events_finally new_events_def)
qed

section \<open>The gateway once the upload is accepted and saved\<close>

lemma save_file_saved:
  "save_upload e p c = Saved \<Longrightarrow>
   save_file e p c w = (Inr (), w\<lparr>fs := (fs w)(p \<mapsto> RegularFile c)\<rparr>)"
  by (simp add: save_file_def)

lemma analyze_sync_saved:
  assumes "\<not> not_a_pdf (upload_filename req)"
    and "save_upload e (upload_path e (uuid4 e)) (upload_content req) = Saved"
  shows "analyze_sync e req w =
    (let fpath = upload_path e (uuid4 e);
         w1 = w\<lparr>fs := (fs w)(fpath \<mapsto> RegularFile (upload_content req))\<rparr>;
         q = normalize_query (form_default (form_query req))
     in ((case crew_kickoff e (fs w1) q fpath of
            Returned resp \<Rightarrow> Inr (SyncResult ''success'' q resp (upload_filename req))
          | RaisedException m \<Rightarrow> Inl (HTTPException 500 (''Error processing document: '' @ m))
          | RaisedBaseException m \<Rightarrow> Inl (Propagated m)),
         remove_if_exists e fpath (snd (run_crew e q fpath w1))))"
  using assms
  by (simp add: analyze_sync_def save_file_saved Let_def run_crew_def split: call.splits)

section \<open>Rows written and events added\<close>

lemma committed_rows_append [simp]:
  "committed_rows (xs @ ys) = committed_rows xs @ committed_rows ys"
  by (induction xs rule: committed_rows.induct) simp_all

lemma committed_rows_removal [simp]:
  "committed_rows (if c then [RemoveCall p] else []) = []"
  by simp

lemma new_events_self [simp]: "new_events w w = []"
  by (simp add: new_events_def)

lemma is_set_None [simp]: "\<not> is_set None"
  by (simp add: is_set_def)

lemma is_set_Some [simp]: "is_set (Some text) \<longleftrightarrow> text \<noteq> []"
  by (simp add: is_set_def)

lemma try_rows:
  assumes job: "jobs w job_id = Some job"
    and fresh: "\<not> is_set (result_text job)" "\<not> is_set (error_message job)"
    and spoken: "os_path_isfile w fpath \<longrightarrow>
      crew_kickoff e (fs w) q fpath \<noteq> Returned []
      \<and> crew_kickoff e (fs w) q fpath \<noteq> RaisedException []"
  shows "\<exists>job'. jobs (snd (run_analysis_try e job_id fpath q w)) = (jobs w)(job_id \<mapsto> job')
      \<and> job_inv job'
      \<and> list_all job_inv (committed_rows (new_events w (snd (run_analysis_try e job_id fpath q w))))"
proof (cases "os_path_isfile w fpath")
  case False
  show ?thesis
    using fresh
    by (intro exI [of _ "job\<lparr>status := FAILED, error_message := Some (''File not found: '' @ fpath)\<rparr>"])
       (simp add: run_analysis_try_missing [OF job False] job_inv_def)
next
  case True
  show ?thesis
  proof (cases "crew_kickoff e (fs w) q fpath")
    case (Returned result)
    with spoken True have "result \<noteq> []"
      by auto
    then show ?thesis
      using fresh
      by (intro exI [of _ "job\<lparr>status := COMPLETED, result_text := Some result, error_message := None\<rparr>"])
         (simp add: run_analysis_try_returned [OF job True Returned] job_inv_def)
  next
    case (RaisedException m)
    with spoken True have "m \<noteq> []"
      by auto
    then show ?thesis
      using fresh
      by (intro exI [of _ "job\<lparr>status := FAILED, error_message := Some m\<rparr>"])
         (simp add: run_analysis_try_exception [OF job True RaisedException] job_inv_def)
  next
    case (RaisedBaseException m)
    show ?thesis
      using fresh
      by (intro exI [of _ "job\<lparr>status := PROCESSING\<rparr>"])
         (simp add: run_analysis_try_base_exception [OF job True RaisedBaseException] job_inv_def)
  qed
qed

lemma store_inv_update:
  "store_inv w \<Longrightarrow> jobs w' = (jobs w)(k \<mapsto> job) \<Longrightarrow> job_inv job \<Longrightarrow> store_inv w'"
  by (simp add: store_inv_def)

lemma store_inv_same: "store_inv w \<Longrightarrow> jobs w' = jobs w \<Longrightarrow> store_inv w'"
  by (simp add: store_inv_def)

lemma job_inv_fresh:
  "job_inv job \<Longrightarrow> status job = PENDING \<or> status job = PROCESSING \<Longrightarrow>
   \<not> is_set (result_text job) \<and> \<not> is_set (error_message job)"
  by (auto simp: job_inv_def)

lemma worker_keeps_store_inv:
  assumes inv: "store_inv w"
    and active: "\<forall>job. jobs w job_id = Some job \<longrightarrow> status job = PENDING \<or> status job = PROCESSING"
    and spoken: "jobs w job_id \<noteq> None \<and> os_path_isfile w fpath \<longrightarrow>
      crew_kickoff e (fs w) q fpath \<noteq> Returned []
      \<and> crew_kickoff e (fs w) q fpath \<noteq> RaisedException []"
    and run: "run_analysis_task e job_id fpath q w = (r, w')"
  shows "store_inv w' \<and> list_all job_inv (committed_rows (new_events w w'))"
proof -
  let ?t = "snd (run_analysis_try e job_id fpath q w)"
  from run have w': "w' = snd (run_analysis_task e job_id fpath q w)"
    by simp
  have jobs': "jobs w' = jobs ?t"
    by (simp add: w' run_analysis_task_split)
  have evs': "committed_rows (new_events w w') = committed_rows (new_events w ?t)"
    unfolding w' new_events_run_analysis_task by simp
  show ?thesis
  proof (cases "jobs w job_id")
    case None
    then have "?t = w"
      by (simp add: run_analysis_try_no_job)
    with inv jobs' evs' show ?thesis
      by (simp add: store_inv_same)
  next
    case (Some job)
    with inv active have "job_inv job" "status job = PENDING \<or> status job = PROCESSING"
      by (auto simp: store_inv_def)
    then have fresh: "\<not> is_set (result_text job)" "\<not> is_set (error_message job)"
      using job_inv_fresh by blast+
    from spoken Some have spoken': "os_path_isfile w fpath \<longrightarrow>
        crew_kickoff e (fs w) q fpath \<noteq> Returned []
        \<and> crew_kickoff e (fs w) q fpath \<noteq> RaisedException []"
      by simp
    from try_rows [OF Some fresh spoken']
    obtain job' where "jobs ?t = (jobs w)(job_id \<mapsto> job')" "job_inv job'"
      "list_all job_inv (committed_rows (new_events w ?t))" by blast
    with inv jobs' evs' show ?thesis
      by (auto intro: store_inv_update)
  qed
qed

lemma gateway_keeps_store_inv:
  assumes inv: "store_inv v"
    and run: "analyze_async e req v = (r, v')"
  shows "store_inv v' \<and> list_all job_inv (committed_rows (new_events v v'))"
proof -
  from run have v': "v' = snd (analyze_async e req v)"
    by simp
  show ?thesis
    using inv unfolding v'
    by (auto simp: analyze_async_def save_file_def Let_def store_inv_def job_inv_def
        new_events_def remove_if_exists_events
        split: save_outcome.splits option.splits call.splits)
qed

lemma sync_writes_no_row:
  "jobs (snd (analyze_sync e req u)) = jobs u
   \<and> committed_rows (new_events u (snd (analyze_sync e req u))) = []"
  by (auto simp: analyze_sync_def save_file_def Let_def new_events_def remove_if_exists_events
      run_crew_def split: save_outcome.splits option.splits call.splits)

lemma new_events_trans:
  "events w1 = events w @ a \<Longrightarrow> events w2 = events w1 @ b \<Longrightarrow> new_events w w2 = a @ b"
  by (simp add: new_events_def)

lemma events_grow_run_analysis_task:
  "events (snd (run_analysis_task e job_id fpath q w)) =
     events w @ new_events w (snd (run_analysis_task e job_id fpath q w))"
proof -
  from events_run_analysis_try [of e job_id fpath q w]
  obtain evs where "events (snd (run_analysis_try e job_id fpath q w)) = events w @ evs"
    by blast
  then show ?thesis
    by (simp add: run_analysis_task_split events_finally new_events_def)
qed

lemma job_stays_run_analysis_task:
  "jobs w job_id = Some job \<Longrightarrow>
   \<exists>job1. jobs (snd (run_analysis_task e job_id fpath q w)) job_id = Some job1"
  by (cases "os_path_isfile w fpath"; cases "crew_kickoff e (fs w) q fpath")
     (simp_all add: run_analysis_task_split run_analysis_try_missing run_analysis_try_returned
        run_analysis_try_exception run_analysis_try_base_exception)

lemma file_gone_run_analysis_task:
  assumes "\<not> remove_fails e fpath" and "fs w fpath \<noteq> Some Directory"
  shows "\<not> os_path_exists (snd (run_analysis_task e job_id fpath q w)) fpath"
proof (cases "fpath = []")
  case True
  then show ?thesis by (simp add: os_path_exists_def)
next
  case False
  with assms show ?thesis
    by (simp add: run_analysis_task_split run_analysis_finally_def remove_if_exists_gone)
qed

lemma update_is_same_row:
  "(job\<lparr>status := s, error_message := m\<rparr> = job) \<longleftrightarrow> (status job = s \<and> error_message job = m)"
  by (cases job) auto

lemma analyze_async_saved:
  assumes "\<not> not_a_pdf (upload_filename req)"
    and "save_upload e (upload_path e (uuid4 e)) (upload_content req) = Saved"
  shows "analyze_async e req w =
    (let job_id = uuid4 e;
         fpath = upload_path e job_id;
         w1 = w\<lparr>fs := (fs w)(fpath \<mapsto> RegularFile (upload_content req))\<rparr>;
         q = normalize_query (form_default (form_query req));
         job = \<lparr>status = PENDING, file_path = fpath,
                original_filename = upload_filename req, query = Some q,
                result_text = None, error_message = None\<rparr>;
         w2 = commit job_id job w1;
         args = \<lparr>arg_job_id = job_id, arg_file_path = fpath, arg_query = q,
                 arg_original_filename = upload_filename req\<rparr>
     in case delay_outcome e of
          Returned u \<Rightarrow>
            (Inr (AnalyzeResponse job_id PENDING
                    ''Analysis queued. Poll GET /analyze/{job_id} for result.''),
             w2\<lparr>broker := broker w2 @ [args]\<rparr>)
        | RaisedException m \<Rightarrow>
            (Inl (HTTPException 503 ''Queue unavailable; try /analyze/sync''),
             remove_if_exists e fpath
               (commit job_id
                  (job\<lparr>status := FAILED, error_message := Some (''Failed to enqueue: '' @ m)\<rparr>) w2))
        | RaisedBaseException m \<Rightarrow> (Inl (Propagated m), w2))"
  using assms by (simp add: analyze_async_def save_file_saved Let_def split: call.splits)

text \<open>
  The task the gateway enqueues carries the id and the file path it recorded on the row,
  so the path the worker tests is the job's recorded path.
\<close>

lemma enqueued_task_matches_row:
  assumes "\<not> not_a_pdf (upload_filename req)"
    and "save_upload e (upload_path e (uuid4 e)) (upload_content req) = Saved"
    and "delay_outcome e = Returned ()"
  shows "map (\<lambda>a. (arg_job_id a, arg_file_path a))
           (drop (length (broker w)) (broker (snd (analyze_async e req w))))
         = [(uuid4 e, upload_path e (uuid4 e))]
    \<and> map_option file_path (jobs (snd (analyze_async e req w)) (uuid4 e))
         = Some (upload_path e (uuid4 e))"
  using assms by (simp add: analyze_async_saved Let_def commit_def)

section \<open>Queries and file names\<close>

lemma strip_blank: "list_all isspace s \<Longrightarrow> strip s = []"
  by (auto simp: strip_def lstrip_def rstrip_def list_all_iff dest: set_dropWhileD)

lemma strip_default_query: "strip default_query = default_query"
  by (simp add: default_query_def strip_def lstrip_def rstrip_def isspace_def)

lemma default_query_nonempty: "default_query \<noteq> []"
  by (simp add: default_query_def)

lemma normalize_blank:
  "blank_query fq \<Longrightarrow> normalize_query (form_default fq) = default_query"
  by (cases fq)
     (simp_all add: blank_query_def normalize_query_def form_default_def str_or_def
        strip_blank strip_default_query default_query_nonempty)

lemma lower_append: "lower (a @ b) = lower a @ lower b"
  by (simp add: lower_def)

lemma length_lower [simp]: "length (lower s) = length s"
  by (simp add: lower_def)

lemma endswith_append: "endswith (a @ b) b"
  by (simp add: endswith_def)

lemma endswith_lower_split:
  assumes "endswith (lower n) suf"
  shows "\<exists>stem ext. n = stem @ ext \<and> lower ext = suf"
proof -
  let ?k = "length n - length suf"
  from assms have "drop ?k (lower n) = suf"
    by (simp add: endswith_def)
  then have "lower (drop ?k n) = suf"
    by (simp add: lower_def drop_map)
  moreover have "n = take ?k n @ drop ?k n"
    by simp
  ultimately show ?thesis by blast
qed

lemma not_a_pdf_iff:
  "not_a_pdf filename \<longleftrightarrow>
     filename = None \<or> (\<forall>stem ext. filename = Some (stem @ ext) \<longrightarrow> lower ext \<noteq> ''.pdf'')"
proof (cases filename)
  case None
  then show ?thesis by (simp add: not_a_pdf_def)
next
  case (Some n)
  have "endswith (lower n) ''.pdf'' \<longleftrightarrow> (\<exists>stem ext. n = stem @ ext \<and> lower ext = ''.pdf'')"
  proof
    assume "endswith (lower n) ''.pdf''"
    then show "\<exists>stem ext. n = stem @ ext \<and> lower ext = ''.pdf''"
      by (rule endswith_lower_split)
  next
    assume "\<exists>stem ext. n = stem @ ext \<and> lower ext = ''.pdf''"
    then obtain stem ext where "n = stem @ ext" "lower ext = ''.pdf''" by blast
    then have "lower n = lower stem @ ''.pdf''"
      by (simp add: lower_append)
    then show "endswith (lower n) ''.pdf''"
      by (simp only: endswith_append)
  qed
  moreover have "n \<noteq> []" if "endswith (lower n) ''.pdf''"
    using that by (auto simp: endswith_def)
  ultimately show ?thesis
    using Some by (auto simp: not_a_pdf_def)
qed

section \<open>The claims\<close>

text \<open>
  C1, as the code has it. When the file passed to \<^verbatim>\<open>run_analysis_task\<close> exists at the start,
  then however the task ends (COMPLETED, FAILED, or an exception that reaches the caller)
  exactly one \<^verbatim>\<open>os.remove\<close> is attempted, on that file; the file is gone afterwards unless
  the attempt fails, and then it is still there. A failing attempt is swallowed: with any
  other behaviour \<^verbatim>\<open>f\<close> of \<^verbatim>\<open>os.remove\<close> the task returns the same and the store ends the
  same. The synchronous endpoint does the same for the file it saved.
\<close>

theorem cleanup_runs_once:
  "(os_path_isfile w fpath \<and> run_analysis_task e job_id fpath q w = (r, w') \<longrightarrow>
      filter is_remove (new_events w w') = [RemoveCall fpath]
      \<and> (\<not> remove_fails e fpath \<longrightarrow> \<not> os_path_exists w' fpath)
      \<and> (remove_fails e fpath \<longrightarrow> os_path_isfile w' fpath)
      \<and> fst (run_analysis_task (e\<lparr>remove_fails := f\<rparr>) job_id fpath q w) = r
      \<and> jobs (snd (run_analysis_task (e\<lparr>remove_fails := f\<rparr>) job_id fpath q w)) = jobs w')
   \<and> (\<not> not_a_pdf (upload_filename req)
       \<and> save_upload e (upload_path e (uuid4 e)) (upload_content req) = Saved
       \<and> analyze_sync e req v = (r2, v') \<longrightarrow>
      filter is_remove (new_events v v') = [RemoveCall (upload_path e (uuid4 e))]
      \<and> (\<not> remove_fails e (upload_path e (uuid4 e)) \<longrightarrow>
            \<not> os_path_exists v' (upload_path e (uuid4 e)))
      \<and> (remove_fails e (upload_path e (uuid4 e)) \<longrightarrow>
            os_path_isfile v' (upload_path e (uuid4 e)))
      \<and> fst (analyze_sync (e\<lparr>remove_fails := f\<rparr>) req v) = r2
      \<and> jobs v' = jobs v)"
proof -
  have worker: "filter is_remove (new_events w w') = [RemoveCall fpath]
      \<and> (\<not> remove_fails e fpath \<longrightarrow> \<not> os_path_exists w' fpath)
      \<and> (remove_fails e fpath \<longrightarrow> os_path_isfile w' fpath)
      \<and> fst (run_analysis_task (e\<lparr>remove_fails := f\<rparr>) job_id fpath q w) = r
      \<and> jobs (snd (run_analysis_task (e\<lparr>remove_fails := f\<rparr>) job_id fpath q w)) = jobs w'"
    if isfile: "os_path_isfile w fpath" and run: "run_analysis_task e job_id fpath q w = (r, w')"
  proof -
    let ?t = "snd (run_analysis_try e job_id fpath q w)"
    from run have r: "r = fst (run_analysis_try e job_id fpath q w)"
      and w': "w' = run_analysis_finally e fpath ?t"
      by (simp_all add: run_analysis_task_split)
    from run have w'_snd: "w' = snd (run_analysis_task e job_id fpath q w)"
      by simp
    from isfile have file_t: "os_path_isfile ?t fpath"
      by simp
    have once: "filter is_remove (new_events w w') = [RemoveCall fpath]"
      unfolding w'_snd new_events_run_analysis_task
      using isfile by (simp add: filter_remove_try isfile_exists)
    have gone: "\<not> remove_fails e fpath \<longrightarrow> \<not> os_path_exists w' fpath"
      by (simp add: w' finally_file [OF file_t] remove_if_exists_file [OF file_t]
          os_path_exists_def)
    have stays: "remove_fails e fpath \<longrightarrow> os_path_isfile w' fpath"
      using file_t by (simp add: w' finally_file [OF file_t] remove_if_exists_stays)
    have same_r: "fst (run_analysis_task (e\<lparr>remove_fails := f\<rparr>) job_id fpath q w) = r"
      by (simp add: run_analysis_task_split r)
    have same_jobs:
      "jobs (snd (run_analysis_task (e\<lparr>remove_fails := f\<rparr>) job_id fpath q w)) = jobs w'"
      by (simp add: run_analysis_task_split w')
    from once gone stays same_r same_jobs show ?thesis by blast
  qed
  have sync: "filter is_remove (new_events v v') = [RemoveCall (upload_path e (uuid4 e))]
      \<and> (\<not> remove_fails e (upload_path e (uuid4 e)) \<longrightarrow>
            \<not> os_path_exists v' (upload_path e (uuid4 e)))
      \<and> (remove_fails e (upload_path e (uuid4 e)) \<longrightarrow>
            os_path_isfile v' (upload_path e (uuid4 e)))
      \<and> fst (analyze_sync (e\<lparr>remove_fails := f\<rparr>) req v) = r2
      \<and> jobs v' = jobs v"
    if pdf: "\<not> not_a_pdf (upload_filename req)"
      and saved: "save_upload e (upload_path e (uuid4 e)) (upload_content req) = Saved"
      and run: "analyze_sync e req v = (r2, v')"
  proof -
    let ?p = "upload_path e (uuid4 e)"
    let ?q = "normalize_query (form_default (form_query req))"
    let ?v1 = "v\<lparr>fs := (fs v)(?p \<mapsto> RegularFile (upload_content req))\<rparr>"
    let ?v2 = "snd (run_crew e ?q ?p ?v1)"
    from run analyze_sync_saved [OF pdf saved, of v]
    have v': "v' = remove_if_exists e ?p ?v2"
      and r2: "r2 = fst (analyze_sync e req v)"
      by (simp_all add: Let_def)
    have file2: "os_path_isfile ?v2 ?p"
      by (simp add: os_path_isfile_def)
    have evs2: "events ?v2 = events v @ [Kickoff ?q ?p]"
      by simp
    have once: "filter is_remove (new_events v v') = [RemoveCall ?p]"
      using isfile_exists [OF file2] by (simp add: v' new_events_def remove_if_exists_events)
    have gone: "\<not> remove_fails e ?p \<longrightarrow> \<not> os_path_exists v' ?p"
      by (simp add: v' remove_if_exists_file [OF file2] os_path_exists_def)
    have stays: "remove_fails e ?p \<longrightarrow> os_path_isfile v' ?p"
      using file2 by (simp add: v' remove_if_exists_stays)
    have saved': "save_upload (e\<lparr>remove_fails := f\<rparr>)
        (upload_path (e\<lparr>remove_fails := f\<rparr>) (uuid4 (e\<lparr>remove_fails := f\<rparr>)))
        (upload_content req) = Saved"
      using saved by (simp add: upload_path_def)
    have same_r: "fst (analyze_sync (e\<lparr>remove_fails := f\<rparr>) req v) = r2"
      unfolding r2 analyze_sync_saved [OF pdf saved] analyze_sync_saved [OF pdf saved']
      by (simp add: Let_def upload_path_def)
    have same_jobs: "jobs v' = jobs v"
      by (simp add: v')
    from once gone stays same_r same_jobs show ?thesis by blast
  qed
  from worker sync show ?thesis by blast
qed

text \<open>
  The claim as stated fails: when \<^verbatim>\<open>os.remove\<close> fails, the job is COMPLETED, the one
  attempt has been made, and the file still exists.
\<close>

theorem failed_removal_leaves_file_counterexample:
  "os_path_isfile world1 (file_path job0)
   \<and> map_option status
        (jobs (snd (run_analysis_task env_remove_fails ''u1'' (file_path job0)
                 ''Summarize this report'' world1)) ''u1'') = Some COMPLETED
   \<and> filter is_remove
        (events (snd (run_analysis_task env_remove_fails ''u1'' (file_path job0)
                 ''Summarize this report'' world1))) = [RemoveCall (file_path job0)]
   \<and> os_path_exists
        (snd (run_analysis_task env_remove_fails ''u1'' (file_path job0)
                 ''Summarize this report'' world1)) (file_path job0)"
  by (simp add: run_analysis_task_def run_analysis_try_def run_analysis_finally_def
      run_crew_def commit_def remove_if_exists_def os_remove_def os_path_exists_def
      os_path_isfile_def Let_def env_remove_fails_def world1_def world0_def job0_def env0_def)

theorem cleanup_runs_once_witness:
  "os_path_isfile world1 (file_path job0)
   \<and> filter is_remove
        (new_events world1
           (snd (run_analysis_task env0 ''u1'' (file_path job0) ''Summarize this report'' world1)))
       = [RemoveCall (file_path job0)]
   \<and> \<not> os_path_exists
         (snd (run_analysis_task env0 ''u1'' (file_path job0) ''Summarize this report'' world1))
         (file_path job0)
   \<and> \<not> not_a_pdf (upload_filename request0)
   \<and> save_upload env0 (upload_path env0 (uuid4 env0)) (upload_content request0) = Saved
   \<and> filter is_remove (new_events world0 (snd (analyze_sync env0 request0 world0)))
       = [RemoveCall (upload_path env0 (uuid4 env0))]
   \<and> \<not> os_path_exists (snd (analyze_sync env0 request0 world0)) (upload_path env0 (uuid4 env0))
   \<and> remove_fails env_remove_fails (file_path job0)
   \<and> os_path_isfile
        (snd (run_analysis_task env_remove_fails ''u1'' (file_path job0) ''Summarize this report'' world1))
        (file_path job0)
   \<and> fst (run_analysis_task env_remove_fails ''u1'' (file_path job0) ''Summarize this report'' world1)
       = fst (run_analysis_task env0 ''u1'' (file_path job0) ''Summarize this report'' world1)"
proof -
  have isfile: "os_path_isfile world1 (file_path job0)"
    by (simp add: world1_def world0_def job0_def os_path_isfile_def)
  have pdf: "\<not> not_a_pdf (upload_filename request0)"
    by (simp add: not_a_pdf_def request0_def lower_def lower_char_def endswith_def)
  have saved: "save_upload env0 (upload_path env0 (uuid4 env0)) (upload_content request0) = Saved"
    by (simp add: env0_def)
  have ok: "\<not> remove_fails env0 p" for p
    by (simp add: env0_def)
  have fails: "remove_fails env_remove_fails (file_path job0)"
    by (simp add: env_remove_fails_def)
  have same_env: "env_remove_fails\<lparr>remove_fails := \<lambda>p. False\<rparr> = env0"
    by (simp add: env_remove_fails_def env0_def)
  from cleanup_runs_once
      [where e = env0 and w = world1 and fpath = "file_path job0" and job_id = "''u1''"
         and q = "''Summarize this report''"
         and r = "fst (run_analysis_task env0 ''u1'' (file_path job0) ''Summarize this report'' world1)"
         and w' = "snd (run_analysis_task env0 ''u1'' (file_path job0) ''Summarize this report'' world1)"
         and req = request0 and v = world0
         and ?r2.0 = "fst (analyze_sync env0 request0 world0)"
         and v' = "snd (analyze_sync env0 request0 world0)"]
    isfile pdf saved ok
  have succeeds: "filter is_remove
        (new_events world1
           (snd (run_analysis_task env0 ''u1'' (file_path job0) ''Summarize this report'' world1)))
       = [RemoveCall (file_path job0)]
   \<and> \<not> os_path_exists
         (snd (run_analysis_task env0 ''u1'' (file_path job0) ''Summarize this report'' world1))
         (file_path job0)
   \<and> filter is_remove (new_events world0 (snd (analyze_sync env0 request0 world0)))
       = [RemoveCall (upload_path env0 (uuid4 env0))]
   \<and> \<not> os_path_exists (snd (analyze_sync env0 request0 world0)) (upload_path env0 (uuid4 env0))"
    by simp
  from cleanup_runs_once
      [where e = env_remove_fails and w = world1 and fpath = "file_path job0"
         and job_id = "''u1''" and q = "''Summarize this report''"
         and r = "fst (run_analysis_task env_remove_fails ''u1'' (file_path job0)
                    ''Summarize this report'' world1)"
         and w' = "snd (run_analysis_task env_remove_fails ''u1'' (file_path job0)
                    ''Summarize this report'' world1)"
         and f = "\<lambda>p. False"]
    isfile fails
  have swallowed: "os_path_isfile
        (snd (run_analysis_task env_remove_fails ''u1'' (file_path job0) ''Summarize this report'' world1))
        (file_path job0)
   \<and> fst (run_analysis_task env_remove_fails ''u1'' (file_path job0) ''Summarize this report'' world1)
       = fst (run_analysis_task env0 ''u1'' (file_path job0) ''Summarize this report'' world1)"
    by (simp add: same_env)
  from isfile pdf saved fails succeeds swallowed show ?thesis by blast
qed

text \<open>
  C2, as the code has it. When every row of the store satisfies the row invariant, the
  job that \<^verbatim>\<open>run_analysis_task\<close> is called for is still PENDING or PROCESSING (or has no
  row), and the crew, where it is run, neither returns the empty string nor raises an
  exception whose \<^verbatim>\<open>str(e)\<close> is empty, every row the task commits satisfies the invariant
  and so does the store it leaves. \<^verbatim>\<open>POST /analyze\<close> keeps the invariant for every row
  it commits, and \<^verbatim>\<open>POST /analyze/sync\<close> writes no row.
\<close>

theorem rows_keep_result_xor_error:
  "(store_inv w
    \<and> (\<forall>job. jobs w job_id = Some job \<longrightarrow> status job = PENDING \<or> status job = PROCESSING)
    \<and> (jobs w job_id \<noteq> None \<and> os_path_isfile w fpath \<longrightarrow>
          crew_kickoff e (fs w) q fpath \<noteq> Returned []
          \<and> crew_kickoff e (fs w) q fpath \<noteq> RaisedException [])
    \<and> run_analysis_task e job_id fpath q w = (r, w') \<longrightarrow>
      store_inv w' \<and> list_all job_inv (committed_rows (new_events w w')))
   \<and> (store_inv v \<and> analyze_async e req v = (r2, v') \<longrightarrow>
      store_inv v' \<and> list_all job_inv (committed_rows (new_events v v')))
   \<and> (analyze_sync e req u = (r3, u') \<longrightarrow>
      jobs u' = jobs u \<and> committed_rows (new_events u u') = [])"
proof -
  have sync: "jobs u' = jobs u \<and> committed_rows (new_events u u') = []"
    if "analyze_sync e req u = (r3, u')"
    using that sync_writes_no_row [of e req u] by simp
  from worker_keeps_store_inv [of w job_id fpath e q r w'] gateway_keeps_store_inv sync
  show ?thesis
    by blast
qed

text \<open>
  The claim as stated fails three ways. The task run again for the job it completed
  (the file is gone by then) commits a FAILED row that still carries the result of the
  first run. For a pending job, a crew exception whose \<^verbatim>\<open>str(e)\<close> is empty leaves a FAILED
  row whose error message is the empty string, which a poll reports as no error; and a
  crew that returns the empty string leaves a COMPLETED row whose result is empty.
\<close>

theorem row_invariant_broken_counterexample:
  "jobs (snd (run_analysis_task env0 ''u1'' (file_path job0) ''Summarize this report'' world1)) ''u1''
     = Some job_done
   \<and> jobs world_done ''u1'' = Some job_done
   \<and> store_inv world_done
   \<and> jobs (snd (run_analysis_task env0 ''u1'' (file_path job0) ''Summarize this report'' world_done)) ''u1''
       = Some (job_done\<lparr>status := FAILED,
            error_message := Some ''File not found: data/uploads/financial_document_u1.pdf''\<rparr>)
   \<and> \<not> job_inv (job_done\<lparr>status := FAILED,
            error_message := Some ''File not found: data/uploads/financial_document_u1.pdf''\<rparr>)
   \<and> \<not> store_inv (snd (run_analysis_task env0 ''u1'' (file_path job0) ''Summarize this report'' world_done))
   \<and> store_inv world1 \<and> jobs world1 ''u1'' = Some job0 \<and> status job0 = PENDING
   \<and> jobs (snd (run_analysis_task (env_crew (RaisedException [])) ''u1'' (file_path job0)
              ''Summarize this report'' world1)) ''u1''
       = Some (job0\<lparr>status := FAILED, error_message := Some []\<rparr>)
   \<and> \<not> job_inv (job0\<lparr>status := FAILED, error_message := Some []\<rparr>)
   \<and> map_sum id view_error
        (get_analysis_result ''u1''
          (snd (run_analysis_task (env_crew (RaisedException [])) ''u1'' (file_path job0)
              ''Summarize this report'' world1)))
       = Inr None
   \<and> jobs (snd (run_analysis_task (env_crew (Returned [])) ''u1'' (file_path job0)
              ''Summarize this report'' world1)) ''u1''
       = Some (job0\<lparr>status := COMPLETED, result_text := Some [], error_message := None\<rparr>)
   \<and> \<not> job_inv (job0\<lparr>status := COMPLETED, result_text := Some [], error_message := None\<rparr>)"
proof -
  have first: "jobs (snd (run_analysis_task env0 ''u1'' (file_path job0) ''Summarize this report'' world1)) ''u1''
     = Some job_done"
    by (simp add: run_analysis_task_def run_analysis_try_def run_analysis_finally_def
      run_crew_def commit_def remove_if_exists_def os_remove_def os_path_exists_def
      os_path_isfile_def Let_def world1_def world0_def job0_def env0_def job_done_def)
  have stored: "jobs world_done ''u1'' = Some job_done"
    by (simp add: world_done_def)
  have inv: "store_inv world_done"
    by (simp add: store_inv_def world_done_def world0_def job_inv_def job_done_def job0_def)
  have second: "jobs (snd (run_analysis_task env0 ''u1'' (file_path job0) ''Summarize this report'' world_done)) ''u1''
       = Some (job_done\<lparr>status := FAILED,
            error_message := Some ''File not found: data/uploads/financial_document_u1.pdf''\<rparr>)"
    by (simp add: run_analysis_task_def run_analysis_try_def run_analysis_finally_def
      run_crew_def commit_def remove_if_exists_def os_remove_def os_path_exists_def
      os_path_isfile_def Let_def world_done_def world0_def job0_def env0_def job_done_def)
  have broken: "\<not> job_inv (job_done\<lparr>status := FAILED,
            error_message := Some ''File not found: data/uploads/financial_document_u1.pdf''\<rparr>)"
    by (simp add: job_inv_def job_done_def)
  from second broken
  have unkept: "\<not> store_inv (snd (run_analysis_task env0 ''u1'' (file_path job0) ''Summarize this report'' world_done))"
    unfolding store_inv_def by blast
  have inv1: "store_inv world1"
    by (simp add: store_inv_def world1_def world0_def job_inv_def job0_def)
  have job: "jobs world1 ''u1'' = Some job0"
    by (simp add: world1_def world0_def)
  have pending: "status job0 = PENDING"
    by (simp add: job0_def)
  have silent: "jobs (snd (run_analysis_task (env_crew (RaisedException [])) ''u1'' (file_path job0)
              ''Summarize this report'' world1)) ''u1''
       = Some (job0\<lparr>status := FAILED, error_message := Some []\<rparr>)"
    by (simp add: run_analysis_task_def run_analysis_try_def run_analysis_finally_def
      run_crew_def commit_def remove_if_exists_def os_remove_def os_path_exists_def
      os_path_isfile_def Let_def world1_def world0_def job0_def env0_def env_crew_def)
  have silent_broken: "\<not> job_inv (job0\<lparr>status := FAILED, error_message := Some []\<rparr>)"
    by (simp add: job_inv_def)
  have poll: "map_sum id view_error
        (get_analysis_result ''u1''
          (snd (run_analysis_task (env_crew (RaisedException [])) ''u1'' (file_path job0)
              ''Summarize this report'' world1)))
       = Inr None"
    by (simp add: get_analysis_result_def silent)
  have mute: "jobs (snd (run_analysis_task (env_crew (Returned [])) ''u1'' (file_path job0)
              ''Summarize this report'' world1)) ''u1''
       = Some (job0\<lparr>status := COMPLETED, result_text := Some [], error_message := None\<rparr>)"
    by (simp add: run_analysis_task_def run_analysis_try_def run_analysis_finally_def
      run_crew_def commit_def remove_if_exists_def os_remove_def os_path_exists_def
      os_path_isfile_def Let_def world1_def world0_def job0_def env0_def env_crew_def)
  have mute_broken:
    "\<not> job_inv (job0\<lparr>status := COMPLETED, result_text := Some [], error_message := None\<rparr>)"
    by (simp add: job_inv_def)
  from first stored inv second broken unkept inv1 job pending silent silent_broken poll mute
    mute_broken
  show ?thesis by blast
qed

theorem rows_keep_result_xor_error_witness:
  "store_inv world1
   \<and> jobs world1 ''u1'' = Some job0 \<and> status job0 = PENDING
   \<and> crew_kickoff env0 (fs world1) ''Summarize this report'' (file_path job0) = Returned ''report''
   \<and> store_inv (snd (run_analysis_task env0 ''u1'' (file_path job0) ''Summarize this report'' world1))
   \<and> list_all job_inv (committed_rows (new_events world1
        (snd (run_analysis_task env0 ''u1'' (file_path job0) ''Summarize this report'' world1))))
   \<and> store_inv world0
   \<and> store_inv (snd (analyze_async env0 request0 world0))
   \<and> jobs (snd (analyze_sync env0 request0 world0)) = jobs world0"
proof -
  have inv0: "store_inv world0"
    by (simp add: store_inv_def world0_def job_inv_def job0_def)
  have inv1: "store_inv world1"
    by (simp add: store_inv_def world1_def world0_def job_inv_def job0_def)
  have job: "jobs world1 ''u1'' = Some job0"
    by (simp add: world1_def world0_def)
  have pending: "status job0 = PENDING"
    by (simp add: job0_def)
  have crew: "crew_kickoff env0 (fs world1) ''Summarize this report'' (file_path job0)
      = Returned ''report''"
    by (simp add: env0_def)
  from rows_keep_result_xor_error
      [where w = world1 and job_id = "''u1''" and e = env0 and fpath = "file_path job0"
         and q = "''Summarize this report''"
         and r = "fst (run_analysis_task env0 ''u1'' (file_path job0) ''Summarize this report'' world1)"
         and w' = "snd (run_analysis_task env0 ''u1'' (file_path job0) ''Summarize this report'' world1)"
         and v = world0 and req = request0
         and ?r2.0 = "fst (analyze_async env0 request0 world0)"
         and v' = "snd (analyze_async env0 request0 world0)"
         and u = world0
         and ?r3.0 = "fst (analyze_sync env0 request0 world0)"
         and u' = "snd (analyze_sync env0 request0 world0)"]
    inv0 inv1 job pending crew
  show ?thesis by simp
qed

text \<open>
  C3, as the code has it. After a first run for an existing job whose clean-up did not
  fail, the file is gone; a second run for the same job id commits the row as PROCESSING
  and then as FAILED with \<^verbatim>\<open>File not found: <path>\<close>, leaving the result text as it was,
  returns the error dictionary, kicks off no crew and attempts no removal, so both runs
  together attempt at most one. The second run leaves the row as it found it only when
  the row was already FAILED with that message.
\<close>

theorem second_delivery_fails_on_missing_file:
  assumes job: "jobs w job_id = Some job"
    and first: "run_analysis_task e1 job_id fpath q1 w = (r1, w1)"
    and removable: "\<not> remove_fails e1 fpath"
    and nodir: "fs w fpath \<noteq> Some Directory"
    and second: "run_analysis_task e2 job_id fpath q2 w1 = (r2, w2)"
  shows "\<exists>job1. jobs w1 job_id = Some job1
    \<and> r2 = Inr (ErrorDict (''File not found: '' @ fpath))
    \<and> jobs w2 job_id =
        Some (job1\<lparr>status := FAILED, error_message := Some (''File not found: '' @ fpath)\<rparr>)
    \<and> new_events w1 w2 =
        [Committed job_id (job1\<lparr>status := PROCESSING\<rparr>),
         Committed job_id
           (job1\<lparr>status := FAILED, error_message := Some (''File not found: '' @ fpath)\<rparr>)]
    \<and> length (filter is_remove (new_events w w2)) \<le> 1
    \<and> (jobs w2 job_id = jobs w1 job_id \<longleftrightarrow>
          status job1 = FAILED \<and> error_message job1 = Some (''File not found: '' @ fpath))"
proof -
  let ?msg = "''File not found: '' @ fpath"
  from first have w1: "w1 = snd (run_analysis_task e1 job_id fpath q1 w)"
    by simp
  from second have r2: "r2 = fst (run_analysis_task e2 job_id fpath q2 w1)"
    and w2: "w2 = snd (run_analysis_task e2 job_id fpath q2 w1)"
    by simp_all
  from job_stays_run_analysis_task [OF job, of e1 fpath q1]
  obtain job1 where job1: "jobs w1 job_id = Some job1"
    unfolding w1 by blast
  have gone: "\<not> os_path_exists w1 fpath"
    unfolding w1 by (rule file_gone_run_analysis_task [OF removable nodir])
  then have missing: "\<not> os_path_isfile w1 fpath"
    using isfile_exists by blast
  let ?failed = "job1\<lparr>status := FAILED, error_message := Some ?msg\<rparr>"
  let ?t = "commit job_id ?failed (commit job_id (job1\<lparr>status := PROCESSING\<rparr>) w1)"
  have try2: "run_analysis_try e2 job_id fpath q2 w1 = (Inr (ErrorDict ?msg), ?t)"
    by (rule run_analysis_try_missing [OF job1 missing])
  have res: "r2 = Inr (ErrorDict ?msg)"
    by (simp add: r2 run_analysis_task_split try2)
  have row: "jobs w2 job_id = Some ?failed"
    by (simp add: w2 run_analysis_task_split try2)
  have evs2: "new_events w1 w2 =
      [Committed job_id (job1\<lparr>status := PROCESSING\<rparr>), Committed job_id ?failed]"
    using gone by (simp add: w2 run_analysis_task_split try2 new_events_def events_finally)
  have "new_events w w2 = new_events w w1 @ new_events w1 w2"
  proof (rule new_events_trans)
    show "events w1 = events w @ new_events w w1"
      unfolding w1 by (rule events_grow_run_analysis_task)
    show "events w2 = events w1 @ new_events w1 w2"
      unfolding w2 by (rule events_grow_run_analysis_task)
  qed
  moreover have "filter is_remove (new_events w w1) =
      (if os_path_exists w fpath then [RemoveCall fpath] else [])"
    unfolding w1 new_events_run_analysis_task by (simp add: filter_remove_try)
  ultimately have once: "length (filter is_remove (new_events w w2)) \<le> 1"
    by (simp add: evs2)
  have noop: "jobs w2 job_id = jobs w1 job_id \<longleftrightarrow>
      status job1 = FAILED \<and> error_message job1 = Some ?msg"
    by (simp only: row job1 option.inject update_is_same_row)
  from job1 res row evs2 once noop show ?thesis by blast
qed

text \<open>
  The claim as stated fails: the second run turns the COMPLETED job into a FAILED one.
\<close>

theorem second_delivery_regresses_counterexample:
  "map_option status
     (jobs (snd (run_analysis_task env0 ''u1'' (file_path job0) ''Summarize this report'' world1)) ''u1'')
     = Some COMPLETED
   \<and> map_option status
       (jobs (snd (run_analysis_task env0 ''u1'' (file_path job0) ''Summarize this report''
          (snd (run_analysis_task env0 ''u1'' (file_path job0) ''Summarize this report'' world1)))) ''u1'')
     = Some FAILED
   \<and> map_option error_message
       (jobs (snd (run_analysis_task env0 ''u1'' (file_path job0) ''Summarize this report''
          (snd (run_analysis_task env0 ''u1'' (file_path job0) ''Summarize this report'' world1)))) ''u1'')
     = Some (Some ''File not found: data/uploads/financial_document_u1.pdf'')"
  by (simp add: run_analysis_task_def run_analysis_try_def run_analysis_finally_def
      run_crew_def commit_def remove_if_exists_def os_remove_def os_path_exists_def
      os_path_isfile_def Let_def world1_def world0_def job0_def env0_def)

theorem second_delivery_fails_on_missing_file_witness:
  "jobs world1 ''u1'' = Some job0
   \<and> \<not> remove_fails env0 (file_path job0)
   \<and> fs world1 (file_path job0) \<noteq> Some Directory
   \<and> fst (run_analysis_task env0 ''u1'' (file_path job0) ''Summarize this report''
          (snd (run_analysis_task env0 ''u1'' (file_path job0) ''Summarize this report'' world1)))
       = Inr (ErrorDict ''File not found: data/uploads/financial_document_u1.pdf'')
   \<and> length (filter is_remove (new_events world1
        (snd (run_analysis_task env0 ''u1'' (file_path job0) ''Summarize this report''
          (snd (run_analysis_task env0 ''u1'' (file_path job0) ''Summarize this report'' world1))))))
       \<le> 1"
proof -
  have job: "jobs world1 ''u1'' = Some job0"
    by (simp add: world1_def world0_def)
  have removable: "\<not> remove_fails env0 (file_path job0)"
    by (simp add: env0_def)
  have nodir: "fs world1 (file_path job0) \<noteq> Some Directory"
    by (simp add: world1_def)
  from second_delivery_fails_on_missing_file
      [OF job surjective_pairing removable nodir surjective_pairing,
       of "''Summarize this report''" env0 "''Summarize this report''"]
    job removable nodir
  show ?thesis by (auto simp: job0_def)
qed

text \<open>
  C4. When the file path passed to \<^verbatim>\<open>run_analysis_task\<close> (the path the gateway recorded
  on the job) is not an existing regular file and the job exists, the task returns
  normally with the error dictionary, the job is FAILED with the message
  \<^verbatim>\<open>File not found: <path>\<close>, which contains \<^verbatim>\<open>not found\<close>, and the crew is never kicked off.
\<close>

theorem missing_file_marks_failed:
  assumes job: "jobs w job_id = Some job"
    and missing: "\<not> os_path_isfile w fpath"
    and run: "run_analysis_task e job_id fpath q w = (r, w')"
  shows "r = Inr (ErrorDict (''File not found: '' @ fpath))
    \<and> jobs w' job_id =
        Some (job\<lparr>status := FAILED, error_message := Some (''File not found: '' @ fpath)\<rparr>)
    \<and> sublist ''not found'' (''File not found: '' @ fpath)
    \<and> filter is_kickoff (new_events w w') = []"
proof -
  let ?msg = "''File not found: '' @ fpath"
  let ?w2 = "commit job_id (job\<lparr>status := FAILED, error_message := Some ?msg\<rparr>)
               (commit job_id (job\<lparr>status := PROCESSING\<rparr>) w)"
  from run run_analysis_try_missing [OF job missing, of e q]
  have r: "r = Inr (ErrorDict ?msg)" and w': "w' = run_analysis_finally e fpath ?w2"
    by (simp_all add: run_analysis_task_def)
  have jobs: "jobs w' job_id = Some (job\<lparr>status := FAILED, error_message := Some ?msg\<rparr>)"
    by (simp add: w' commit_def)
  have "''File not found: '' @ fpath = ''File '' @ ''not found'' @ ('': '' @ fpath)"
    by simp
  then have sub: "sublist ''not found'' ?msg"
    unfolding sublist_def by blast
  have "new_events w w' =
      [Committed job_id (job\<lparr>status := PROCESSING\<rparr>),
       Committed job_id (job\<lparr>status := FAILED, error_message := Some ?msg\<rparr>)]
      @ (if os_path_exists ?w2 fpath then [RemoveCall fpath] else [])"
    by (simp add: w' finally_events new_events_def commit_def)
  then have "filter is_kickoff (new_events w w') = []"
    by simp
  with r jobs sub show ?thesis by blast
qed

theorem missing_file_marks_failed_witness:
  "jobs world0 ''u1'' = Some job0
   \<and> \<not> os_path_isfile world0 (file_path job0)
   \<and> fst (run_analysis_task env0 ''u1'' (file_path job0) ''Summarize this report'' world0)
       = Inr (ErrorDict ''File not found: data/uploads/financial_document_u1.pdf'')
   \<and> map_option status
        (jobs (snd (run_analysis_task env0 ''u1'' (file_path job0) ''Summarize this report'' world0)) ''u1'')
       = Some FAILED"
proof -
  have job: "jobs world0 ''u1'' = Some job0"
    by (simp add: world0_def)
  have missing: "\<not> os_path_isfile world0 (file_path job0)"
    by (simp add: world0_def os_path_isfile_def)
  from missing_file_marks_failed [OF job missing surjective_pairing, of env0 "''Summarize this report''"]
  show ?thesis using job missing by (simp add: job0_def)
qed

text \<open>
  C5, as the code has it. For a job id with no row the task returns the dictionary
  \<^verbatim>\<open>{"ok": False, "error": "Job not found"}\<close> and leaves every row as it is, but the
  \<^verbatim>\<open>finally\<close> block still runs: when something exists at the file path passed, one
  \<^verbatim>\<open>os.remove\<close> is attempted, and a regular file there is deleted unless the attempt fails.
\<close>

theorem unknown_job_still_cleans_up:
  assumes nojob: "jobs w job_id = None"
    and run: "run_analysis_task e job_id fpath q w = (r, w')"
  shows "r = Inr (ErrorDict ''Job not found'')
    \<and> jobs w' = jobs w
    \<and> new_events w w' = (if os_path_exists w fpath then [RemoveCall fpath] else [])
    \<and> (os_path_isfile w fpath \<and> \<not> remove_fails e fpath \<longrightarrow> \<not> os_path_exists w' fpath)"
proof -
  from run run_analysis_try_no_job [OF nojob, of e fpath q]
  have r: "r = Inr (ErrorDict ''Job not found'')" and w': "w' = run_analysis_finally e fpath w"
    by (simp_all add: run_analysis_task_def)
  have jobs: "jobs w' = jobs w"
    by (simp add: w')
  have evs: "new_events w w' = (if os_path_exists w fpath then [RemoveCall fpath] else [])"
    by (simp add: w' new_events_def events_finally)
  have gone: "os_path_isfile w fpath \<and> \<not> remove_fails e fpath \<longrightarrow> \<not> os_path_exists w' fpath"
    by (auto simp: w' finally_file remove_if_exists_file os_path_exists_def)
  from r jobs evs gone show ?thesis by blast
qed

text \<open>
  The claim as stated fails: with no row for the job id and the file on disk, the run
  reports that the job is not found and deletes the file.
\<close>

theorem unknown_job_file_deleted_counterexample:
  "jobs world_orphan ''u1'' = None
   \<and> os_path_isfile world_orphan (file_path job0)
   \<and> fst (run_analysis_task env0 ''u1'' (file_path job0) ''Summarize this report'' world_orphan)
       = Inr (ErrorDict ''Job not found'')
   \<and> events (snd (run_analysis_task env0 ''u1'' (file_path job0) ''Summarize this report'' world_orphan))
       = [RemoveCall (file_path job0)]
   \<and> \<not> os_path_exists
         (snd (run_analysis_task env0 ''u1'' (file_path job0) ''Summarize this report'' world_orphan))
         (file_path job0)"
  by (simp add: run_analysis_task_def run_analysis_try_def run_analysis_finally_def
      remove_if_exists_def os_remove_def os_path_exists_def os_path_isfile_def Let_def
      world_orphan_def world1_def world0_def job0_def env0_def)

theorem unknown_job_still_cleans_up_witness:
  "jobs world_orphan ''u1'' = None
   \<and> os_path_isfile world_orphan (file_path job0)
   \<and> \<not> remove_fails env0 (file_path job0)
   \<and> new_events world_orphan
        (snd (run_analysis_task env0 ''u1'' (file_path job0) ''Summarize this report'' world_orphan))
       = [RemoveCall (file_path job0)]
   \<and> jobs (snd (run_analysis_task env0 ''u1'' (file_path job0) ''Summarize this report'' world_orphan))
       = jobs world_orphan"
proof -
  have nojob: "jobs world_orphan ''u1'' = None"
    by (simp add: world_orphan_def)
  have isfile: "os_path_isfile world_orphan (file_path job0)"
    by (simp add: world_orphan_def world1_def world0_def job0_def os_path_isfile_def)
  have ok: "\<not> remove_fails env0 (file_path job0)"
    by (simp add: env0_def)
  from unknown_job_still_cleans_up [OF nojob surjective_pairing, of env0 "file_path job0"
      "''Summarize this report''"] isfile ok nojob
  show ?thesis by (simp add: isfile_exists)
qed

text \<open>
  C6, as the code has it. Every exception of class \<^verbatim>\<open>Exception\<close> the crew run raises
  (extraction and the analysis engine both run inside it) is caught: the job becomes
  FAILED with \<^verbatim>\<open>str(e)\<close> as its error message and the task returns
  \<^verbatim>\<open>{"ok": False, "job_id": job_id}\<close>. The task raises to its caller exactly when the
  crew raises an exception outside class \<^verbatim>\<open>Exception\<close>, which \<^verbatim>\<open>except Exception\<close> does
  not catch; the job is then left in PROCESSING.
\<close>

theorem crew_exception_marks_failed:
  assumes run: "run_analysis_task e job_id fpath q w = (r, w')"
  shows "(jobs w job_id = Some job \<and> os_path_isfile w fpath
          \<and> crew_kickoff e (fs w) q fpath = RaisedException m \<longrightarrow>
            r = Inr (StatusDict False job_id)
            \<and> jobs w' job_id = Some (job\<lparr>status := FAILED, error_message := Some m\<rparr>))
    \<and> ((\<exists>x. r = Inl x) \<longleftrightarrow>
          jobs w job_id \<noteq> None \<and> os_path_isfile w fpath
          \<and> (\<exists>m. crew_kickoff e (fs w) q fpath = RaisedBaseException m))
    \<and> (jobs w job_id = Some job \<and> os_path_isfile w fpath
          \<and> crew_kickoff e (fs w) q fpath = RaisedBaseException m \<longrightarrow>
            r = Inl (Propagated m) \<and> jobs w' job_id = Some (job\<lparr>status := PROCESSING\<rparr>))"
proof -
  from run have r: "r = fst (run_analysis_try e job_id fpath q w)"
    and w': "w' = run_analysis_finally e fpath (snd (run_analysis_try e job_id fpath q w))"
    by (simp_all add: run_analysis_task_split)
  have caught: "jobs w job_id = Some job \<and> os_path_isfile w fpath
      \<and> crew_kickoff e (fs w) q fpath = RaisedException m \<longrightarrow>
        r = Inr (StatusDict False job_id)
        \<and> jobs w' job_id = Some (job\<lparr>status := FAILED, error_message := Some m\<rparr>)"
    by (simp add: r w' run_analysis_try_exception)
  have raises: "(\<exists>x. r = Inl x) \<longleftrightarrow>
      jobs w job_id \<noteq> None \<and> os_path_isfile w fpath
      \<and> (\<exists>m. crew_kickoff e (fs w) q fpath = RaisedBaseException m)"
    unfolding r by (rule run_analysis_try_raises)
  have escapes: "jobs w job_id = Some job \<and> os_path_isfile w fpath
      \<and> crew_kickoff e (fs w) q fpath = RaisedBaseException m \<longrightarrow>
        r = Inl (Propagated m) \<and> jobs w' job_id = Some (job\<lparr>status := PROCESSING\<rparr>)"
    by (simp add: r w' run_analysis_try_base_exception)
  from caught raises escapes show ?thesis by blast
qed

text \<open>
  The claim as stated fails: a \<^verbatim>\<open>KeyboardInterrupt\<close> raised inside the crew run reaches
  the caller, and the job stays in PROCESSING.
\<close>

theorem base_exception_propagates_counterexample:
  "fst (run_analysis_task (env_crew (RaisedBaseException ''KeyboardInterrupt'')) ''u1''
          (file_path job0) ''Summarize this report'' world1)
     = Inl (Propagated ''KeyboardInterrupt'')
   \<and> map_option status
        (jobs (snd (run_analysis_task (env_crew (RaisedBaseException ''KeyboardInterrupt'')) ''u1''
                 (file_path job0) ''Summarize this report'' world1)) ''u1'')
     = Some PROCESSING"
  by (simp add: run_analysis_task_def run_analysis_try_def run_analysis_finally_def
      run_crew_def commit_def remove_if_exists_def os_remove_def os_path_exists_def
      os_path_isfile_def Let_def env_crew_def world1_def world0_def job0_def env0_def)

theorem crew_exception_marks_failed_witness:
  "jobs world1 ''u1'' = Some job0
   \<and> os_path_isfile world1 (file_path job0)
   \<and> crew_kickoff (env_crew (RaisedException ''quota exceeded'')) (fs world1)
        ''Summarize this report'' (file_path job0) = RaisedException ''quota exceeded''
   \<and> fst (run_analysis_task (env_crew (RaisedException ''quota exceeded'')) ''u1''
            (file_path job0) ''Summarize this report'' world1)
       = Inr (StatusDict False ''u1'')
   \<and> jobs (snd (run_analysis_task (env_crew (RaisedException ''quota exceeded'')) ''u1''
                 (file_path job0) ''Summarize this report'' world1)) ''u1''
       = Some (job0\<lparr>status := FAILED, error_message := Some ''quota exceeded''\<rparr>)
   \<and> crew_kickoff (env_crew (RaisedBaseException ''SystemExit'')) (fs world1)
        ''Summarize this report'' (file_path job0) = RaisedBaseException ''SystemExit''
   \<and> fst (run_analysis_task (env_crew (RaisedBaseException ''SystemExit'')) ''u1''
            (file_path job0) ''Summarize this report'' world1)
       = Inl (Propagated ''SystemExit'')"
proof -
  have job: "jobs world1 ''u1'' = Some job0"
    by (simp add: world1_def world0_def)
  have isfile: "os_path_isfile world1 (file_path job0)"
    by (simp add: world1_def world0_def job0_def os_path_isfile_def)
  have crew: "crew_kickoff (env_crew (RaisedException ''quota exceeded'')) (fs world1)
      ''Summarize this report'' (file_path job0) = RaisedException ''quota exceeded''"
    by (simp add: env_crew_def)
  have crew_exit: "crew_kickoff (env_crew (RaisedBaseException ''SystemExit'')) (fs world1)
      ''Summarize this report'' (file_path job0) = RaisedBaseException ''SystemExit''"
    by (simp add: env_crew_def)
  from crew_exception_marks_failed
      [where e = "env_crew (RaisedException ''quota exceeded'')" and job_id = "''u1''"
         and fpath = "file_path job0" and q = "''Summarize this report''" and w = world1
         and job = job0 and m = "''quota exceeded''", OF surjective_pairing]
    job isfile crew
  have caught: "fst (run_analysis_task (env_crew (RaisedException ''quota exceeded'')) ''u1''
            (file_path job0) ''Summarize this report'' world1)
       = Inr (StatusDict False ''u1'')
   \<and> jobs (snd (run_analysis_task (env_crew (RaisedException ''quota exceeded'')) ''u1''
                 (file_path job0) ''Summarize this report'' world1)) ''u1''
       = Some (job0\<lparr>status := FAILED, error_message := Some ''quota exceeded''\<rparr>)"
    by simp
  from crew_exception_marks_failed
      [where e = "env_crew (RaisedBaseException ''SystemExit'')" and job_id = "''u1''"
         and fpath = "file_path job0" and q = "''Summarize this report''" and w = world1
         and job = job0 and m = "''SystemExit''", OF surjective_pairing]
    job isfile crew_exit
  have escapes: "fst (run_analysis_task (env_crew (RaisedBaseException ''SystemExit'')) ''u1''
            (file_path job0) ''Summarize this report'' world1)
       = Inl (Propagated ''SystemExit'')"
    by simp
  from job isfile crew caught crew_exit escapes show ?thesis by blast
qed

text \<open>
  C7, as the code has it. The extractor never returns the empty string. For an empty path
  or a path that is no regular file it returns \<^verbatim>\<open>Error: File not found at path: <path>\<close>.
  Otherwise, when the PDF loader returns the pages, it returns the trimmed concatenation of
  the pages' texts, each page with its runs of line breaks squeezed to one line break
  and followed by one line break, or \<^verbatim>\<open>(No text extracted from PDF)\<close> when that is empty:
  no page's own text holds two consecutive line breaks, while the joined text can hold
  them where pages meet. It raises exactly when the loader raises for an existing file.
\<close>

theorem extractor_never_empty_pages_squeezed:
  "read_financial_document e w path \<noteq> Inr []
   \<and> (path = [] \<or> \<not> os_path_isfile w path \<longrightarrow>
        read_financial_document e w path = Inr (''Error: File not found at path: '' @ path))
   \<and> (path \<noteq> [] \<and> os_path_isfile w path \<and> pdf_load e (fs w) path = Returned docs \<longrightarrow>
        read_financial_document e w path =
          Inr (let text = strip (concat (map (\<lambda>d. squeeze_newlines (page_text d) @ ''\<newline>'') docs))
               in if text = [] then ''(No text extracted from PDF)'' else text)
        \<and> list_all (\<lambda>d. \<not> contains_nn (squeeze_newlines (page_text d))) docs)
   \<and> ((\<exists>m. read_financial_document e w path = Inl m) \<longleftrightarrow>
        path \<noteq> [] \<and> os_path_isfile w path \<and> (\<forall>docs. pdf_load e (fs w) path \<noteq> Returned docs))"
proof -
  have nonempty: "read_financial_document e w path \<noteq> Inr []"
    by (simp add: read_financial_document_def str_or_nonempty split: call.splits)
  have missing: "path = [] \<or> \<not> os_path_isfile w path \<longrightarrow>
      read_financial_document e w path = Inr (''Error: File not found at path: '' @ path)"
    by (simp add: read_financial_document_def)
  have squeezed: "list_all (\<lambda>d. \<not> contains_nn (squeeze_newlines (page_text d))) docs"
    using collapse_no_blank_line by (simp add: list_all_iff collapse_is_squeeze [symmetric])
  have pages: "path \<noteq> [] \<and> os_path_isfile w path \<and> pdf_load e (fs w) path = Returned docs \<longrightarrow>
      read_financial_document e w path =
        Inr (let text = strip (concat (map (\<lambda>d. squeeze_newlines (page_text d) @ ''\<newline>'') docs))
             in if text = [] then ''(No text extracted from PDF)'' else text)"
    by (simp add: read_financial_document_def full_report_concat str_or_def Let_def)
  have raises: "(\<exists>m. read_financial_document e w path = Inl m) \<longleftrightarrow>
      path \<noteq> [] \<and> os_path_isfile w path \<and> (\<forall>docs. pdf_load e (fs w) path \<noteq> Returned docs)"
    by (auto simp: read_financial_document_def split: call.splits)
  from nonempty missing squeezed pages raises show ?thesis by blast
qed

text \<open>
  The claim as stated fails: an empty page between two pages leaves two consecutive
  line breaks in the returned text, and an exception of the loader is not caught.
\<close>

theorem extractor_blank_line_counterexample:
  "read_financial_document (env_pages (Returned [Some ''a'', None, Some ''b''])) world1
      (file_path job0) = Inr ''a\<newline>\<newline>b''
   \<and> contains_nn ''a\<newline>\<newline>b''
   \<and> read_financial_document (env_pages (RaisedException ''Stream has ended unexpectedly''))
        world1 (file_path job0) = Inl (Propagated ''Stream has ended unexpectedly'')"
  by (simp add: read_financial_document_def env_pages_def env0_def world1_def world0_def
      job0_def os_path_isfile_def full_report_concat page_text_def str_or_def strip_def
      lstrip_def rstrip_def isspace_def)

theorem extractor_never_empty_pages_squeezed_witness:
  "os_path_isfile world1 (file_path job0)
   \<and> read_financial_document (env_pages (Returned [Some ''Q1\<newline>\<newline>\<newline>Revenue'', Some '' ''])) world1
        (file_path job0) = Inr ''Q1\<newline>Revenue''
   \<and> read_financial_document (env_pages (Returned [None])) world1 (file_path job0)
        = Inr ''(No text extracted from PDF)''
   \<and> read_financial_document env0 world0 (file_path job0)
        = Inr ''Error: File not found at path: data/uploads/financial_document_u1.pdf''
   \<and> (\<exists>m. read_financial_document (env_pages (RaisedException ''Stream has ended unexpectedly''))
          world1 (file_path job0) = Inl m)"
proof -
  have isfile: "os_path_isfile world1 (file_path job0)"
    by (simp add: world1_def world0_def job0_def os_path_isfile_def)
  have nonempty: "file_path job0 \<noteq> []"
    by (simp add: job0_def)
  have load1: "pdf_load (env_pages (Returned [Some ''Q1\<newline>\<newline>\<newline>Revenue'', Some '' ''])) (fs world1)
      (file_path job0) = Returned [Some ''Q1\<newline>\<newline>\<newline>Revenue'', Some '' '']"
    by (simp add: env_pages_def)
  have load2: "pdf_load (env_pages (Returned [None])) (fs world1) (file_path job0) = Returned [None]"
    by (simp add: env_pages_def)
  have load3: "pdf_load (env_pages (RaisedException ''Stream has ended unexpectedly'')) (fs world1)
      (file_path job0) \<noteq> Returned docs" for docs
    by (simp add: env_pages_def)
  have missing: "\<not> os_path_isfile world0 (file_path job0)"
    by (simp add: world0_def os_path_isfile_def)
  from extractor_never_empty_pages_squeezed
         [of "env_pages (Returned [Some ''Q1\<newline>\<newline>\<newline>Revenue'', Some '' ''])" world1 "file_path job0"
             "[Some ''Q1\<newline>\<newline>\<newline>Revenue'', Some '' '']"]
       isfile nonempty load1
  have a: "read_financial_document (env_pages (Returned [Some ''Q1\<newline>\<newline>\<newline>Revenue'', Some '' ''])) world1
        (file_path job0) = Inr ''Q1\<newline>Revenue''"
    by (simp add: page_text_def strip_def lstrip_def rstrip_def isspace_def)
  from extractor_never_empty_pages_squeezed
         [of "env_pages (Returned [None])" world1 "file_path job0" "[None]"]
       isfile nonempty load2
  have b: "read_financial_document (env_pages (Returned [None])) world1 (file_path job0)
        = Inr ''(No text extracted from PDF)''"
    by (simp add: page_text_def strip_def lstrip_def rstrip_def isspace_def)
  from extractor_never_empty_pages_squeezed [of env0 world0 "file_path job0"] missing
  have c: "read_financial_document env0 world0 (file_path job0)
        = Inr ''Error: File not found at path: data/uploads/financial_document_u1.pdf''"
    by (simp add: job0_def)
  from extractor_never_empty_pages_squeezed
         [of "env_pages (RaisedException ''Stream has ended unexpectedly'')" world1 "file_path job0"]
       isfile nonempty load3
  have d: "\<exists>m. read_financial_document (env_pages (RaisedException ''Stream has ended unexpectedly''))
          world1 (file_path job0) = Inl m"
    by blast
  from isfile a b c d show ?thesis by blast
qed

text \<open>
  C8. For a submission the endpoints accept and save whose query field is blank, the
  normalised query is the default prompt, which is not empty; \<^verbatim>\<open>POST /analyze\<close> stores
  it on the job row and passes it in the task it enqueues, and \<^verbatim>\<open>POST /analyze/sync\<close>
  kicks the crew off with it.
\<close>

theorem blank_query_defaults:
  assumes blank: "blank_query (form_query req)"
    and pdf: "\<not> not_a_pdf (upload_filename req)"
    and saved: "save_upload e (upload_path e (uuid4 e)) (upload_content req) = Saved"
  shows "normalize_query (form_default (form_query req)) = default_query
    \<and> default_query \<noteq> []
    \<and> map_option query (jobs (snd (analyze_async e req v)) (uuid4 e)) = Some (Some default_query)
    \<and> map arg_query (drop (length (broker v)) (broker (snd (analyze_async e req v)))) =
        (case delay_outcome e of Returned u \<Rightarrow> [default_query] | _ \<Rightarrow> [])
    \<and> filter is_kickoff (new_events u (snd (analyze_sync e req u))) =
        [Kickoff default_query (upload_path e (uuid4 e))]"
proof -
  have q: "normalize_query (form_default (form_query req)) = default_query"
    by (rule normalize_blank [OF blank])
  have stored: "map_option query (jobs (snd (analyze_async e req v)) (uuid4 e))
      = Some (Some default_query)"
    by (simp add: analyze_async_saved [OF pdf saved] Let_def q split: call.splits)
  have queued: "map arg_query (drop (length (broker v)) (broker (snd (analyze_async e req v)))) =
      (case delay_outcome e of Returned u \<Rightarrow> [default_query] | _ \<Rightarrow> [])"
    by (simp add: analyze_async_saved [OF pdf saved] Let_def q commit_def split: call.splits)
  have kicked: "filter is_kickoff (new_events u (snd (analyze_sync e req u))) =
      [Kickoff default_query (upload_path e (uuid4 e))]"
    by (simp add: analyze_sync_saved [OF pdf saved] Let_def q new_events_def
        remove_if_exists_events)
  from q default_query_nonempty stored queued kicked show ?thesis by blast
qed

theorem blank_query_defaults_witness:
  "blank_query (form_query request_blank)
   \<and> \<not> not_a_pdf (upload_filename request_blank)
   \<and> save_upload env0 (upload_path env0 (uuid4 env0)) (upload_content request_blank) = Saved
   \<and> map_option query (jobs (snd (analyze_async env0 request_blank world0)) ''u1'')
       = Some (Some ''Analyze this financial document for investment insights'')
   \<and> map arg_query (broker (snd (analyze_async env0 request_blank world0)))
       = [''Analyze this financial document for investment insights'']
   \<and> filter is_kickoff (new_events world0 (snd (analyze_sync env0 request_blank world0)))
       = [Kickoff ''Analyze this financial document for investment insights''
            ''data/uploads/financial_document_u1.pdf'']"
proof -
  have blank: "blank_query (form_query request_blank)"
    by (simp add: blank_query_def request_blank_def isspace_def)
  have pdf: "\<not> not_a_pdf (upload_filename request_blank)"
    by (simp add: not_a_pdf_def request_blank_def request0_def lower_def lower_char_def endswith_def)
  have saved: "save_upload env0 (upload_path env0 (uuid4 env0)) (upload_content request_blank) = Saved"
    by (simp add: env0_def)
  have path: "upload_path env0 ''u1'' = ''data/uploads/financial_document_u1.pdf''"
    by (simp add: upload_path_def os_path_join_def env0_def)
  have ident: "uuid4 env0 = ''u1''" and delay: "delay_outcome env0 = Returned ()"
    and empty: "broker world0 = []"
    by (simp_all add: env0_def world0_def)
  from blank_query_defaults [OF blank pdf saved, of world0 world0] blank pdf saved
  show ?thesis
    by (simp add: path ident delay empty default_query_def)
qed

text \<open>
  C9. When the upload has no file name, or its file name has no ending that reads
  \<^verbatim>\<open>.pdf\<close> once lowered, both endpoints raise \<^verbatim>\<open>HTTPException(400)\<close> and leave the world as
  it was: no file is written, no row is added, nothing is enqueued.
\<close>

theorem non_pdf_rejected:
  assumes "upload_filename req = None
     \<or> (\<forall>stem ext. upload_filename req = Some (stem @ ext) \<longrightarrow> lower ext \<noteq> ''.pdf'')"
  shows "analyze_async e req w = (Inl (HTTPException 400 ''A PDF file is required.''), w)
    \<and> analyze_sync e req w = (Inl (HTTPException 400 ''A PDF file is required.''), w)"
proof -
  from assms have "not_a_pdf (upload_filename req)"
    by (simp only: not_a_pdf_iff)
  then show ?thesis
    by (simp add: analyze_async_def analyze_sync_def)
qed

theorem non_pdf_rejected_witness:
  "not_a_pdf (upload_filename request_txt)
   \<and> analyze_async env0 request_txt world_empty =
       (Inl (HTTPException 400 ''A PDF file is required.''), world_empty)
   \<and> analyze_sync env0 request_txt world_empty =
       (Inl (HTTPException 400 ''A PDF file is required.''), world_empty)
   \<and> jobs world_empty (uuid4 env0) = None \<and> fs world_empty (upload_path env0 (uuid4 env0)) = None"
proof -
  have rejected: "not_a_pdf (upload_filename request_txt)"
    by (simp add: not_a_pdf_def request_txt_def request0_def lower_def lower_char_def
        endswith_def)
  then have hyp: "upload_filename request_txt = None
     \<or> (\<forall>stem ext. upload_filename request_txt = Some (stem @ ext) \<longrightarrow> lower ext \<noteq> ''.pdf'')"
    by (simp only: not_a_pdf_iff)
  have fresh: "jobs world_empty (uuid4 env0) = None" "fs world_empty (upload_path env0 (uuid4 env0)) = None"
    by (simp_all add: world_empty_def)
  from non_pdf_rejected [OF hyp, of env0 world_empty] rejected fresh show ?thesis
    by simp
qed

text \<open>
  C10, as the code has it. When \<^verbatim>\<open>run_analysis_task.delay\<close> raises an exception of class
  \<^verbatim>\<open>Exception\<close> after the row was added, \<^verbatim>\<open>POST /analyze\<close> answers 503, the row stays and is
  FAILED with the message \<^verbatim>\<open>Failed to enqueue: \<close> followed by \<^verbatim>\<open>str(e)\<close>, nothing is
  enqueued, one \<^verbatim>\<open>os.remove\<close> of the saved file is attempted, the file is gone unless that
  attempt fails and is still there when it does, and a later poll of the job id reports
  FAILED with that message.
\<close>

theorem enqueue_failure_marks_failed:
  assumes pdf: "\<not> not_a_pdf (upload_filename req)"
    and saved: "save_upload e (upload_path e (uuid4 e)) (upload_content req) = Saved"
    and raised: "delay_outcome e = RaisedException m"
    and run: "analyze_async e req w = (r, w')"
  shows "r = Inl (HTTPException 503 ''Queue unavailable; try /analyze/sync'')
    \<and> jobs w' (uuid4 e) =
        Some \<lparr>status = FAILED, file_path = upload_path e (uuid4 e),
              original_filename = upload_filename req,
              query = Some (normalize_query (form_default (form_query req))),
              result_text = None, error_message = Some (''Failed to enqueue: '' @ m)\<rparr>
    \<and> prefix ''Failed to enqueue:'' (''Failed to enqueue: '' @ m)
    \<and> filter is_remove (new_events w w') = [RemoveCall (upload_path e (uuid4 e))]
    \<and> (\<not> remove_fails e (upload_path e (uuid4 e)) \<longrightarrow>
          \<not> os_path_exists w' (upload_path e (uuid4 e)))
    \<and> (remove_fails e (upload_path e (uuid4 e)) \<longrightarrow>
          os_path_isfile w' (upload_path e (uuid4 e)))
    \<and> broker w' = broker w
    \<and> map_sum id (\<lambda>view. (view_status view, view_error view))
          (get_analysis_result (uuid4 e) w')
        = Inr (FAILED, Some (''Failed to enqueue: '' @ m))"
proof -
  let ?p = "upload_path e (uuid4 e)"
  let ?q = "normalize_query (form_default (form_query req))"
  let ?job = "\<lparr>status = PENDING, file_path = ?p, original_filename = upload_filename req,
      query = Some ?q, result_text = None, error_message = None\<rparr>"
  let ?failed = "?job\<lparr>status := FAILED, error_message := Some (''Failed to enqueue: '' @ m)\<rparr>"
  let ?w1 = "w\<lparr>fs := (fs w)(?p \<mapsto> RegularFile (upload_content req))\<rparr>"
  let ?w3 = "commit (uuid4 e) ?failed (commit (uuid4 e) ?job ?w1)"
  from run analyze_async_saved [OF pdf saved, of w] raised
  have r: "r = Inl (HTTPException 503 ''Queue unavailable; try /analyze/sync'')"
    and w': "w' = remove_if_exists e ?p ?w3"
    by (simp_all add: Let_def)
  have file3: "os_path_isfile ?w3 ?p"
    by (simp add: os_path_isfile_def)
  have row: "jobs w' (uuid4 e) =
      Some \<lparr>status = FAILED, file_path = ?p, original_filename = upload_filename req,
            query = Some ?q, result_text = None,
            error_message = Some (''Failed to enqueue: '' @ m)\<rparr>"
    by (simp add: w')
  have starts: "prefix ''Failed to enqueue:'' (''Failed to enqueue: '' @ m)"
    by simp
  have once: "filter is_remove (new_events w w') = [RemoveCall ?p]"
    using isfile_exists [OF file3] by (simp add: w' new_events_def remove_if_exists_events)
  have gone: "\<not> remove_fails e ?p \<longrightarrow> \<not> os_path_exists w' ?p"
    using remove_if_exists_gone [of e ?p ?w3] by (simp add: w')
  have stays: "remove_fails e ?p \<longrightarrow> os_path_isfile w' ?p"
    using file3 by (simp add: w' remove_if_exists_stays)
  have queue: "broker w' = broker w"
    by (simp add: w' commit_def)
  have poll: "map_sum id (\<lambda>view. (view_status view, view_error view))
        (get_analysis_result (uuid4 e) w') = Inr (FAILED, Some (''Failed to enqueue: '' @ m))"
    by (simp add: get_analysis_result_def row)
  from r row starts once gone stays queue poll show ?thesis by blast
qed

text \<open>
  The claim as stated fails: when the queue is down and \<^verbatim>\<open>os.remove\<close> fails too, the row
  is FAILED, the answer is 503, and the saved file is still on disk.
\<close>

theorem enqueue_failure_file_left_counterexample:
  "delay_outcome env_queue_down_remove_fails = RaisedException ''Connection refused''
   \<and> fst (analyze_async env_queue_down_remove_fails request0 world_empty)
       = Inl (HTTPException 503 ''Queue unavailable; try /analyze/sync'')
   \<and> map_option status (jobs (snd (analyze_async env_queue_down_remove_fails request0 world_empty)) ''u1'')
       = Some FAILED
   \<and> os_path_exists (snd (analyze_async env_queue_down_remove_fails request0 world_empty))
        ''data/uploads/financial_document_u1.pdf''"
  by (simp add: analyze_async_def save_file_def Let_def commit_def remove_if_exists_def
      os_remove_def os_path_exists_def os_path_isfile_def upload_path_def os_path_join_def
      not_a_pdf_def lower_def lower_char_def endswith_def
      env_queue_down_remove_fails_def env_queue_down_def env0_def request0_def world_empty_def)

theorem enqueue_failure_marks_failed_witness:
  "\<not> not_a_pdf (upload_filename request0)
   \<and> save_upload env_queue_down (upload_path env_queue_down (uuid4 env_queue_down))
        (upload_content request0) = Saved
   \<and> delay_outcome env_queue_down = RaisedException ''Connection refused''
   \<and> \<not> remove_fails env_queue_down (upload_path env_queue_down (uuid4 env_queue_down))
   \<and> fst (analyze_async env_queue_down request0 world_empty)
       = Inl (HTTPException 503 ''Queue unavailable; try /analyze/sync'')
   \<and> map_option error_message (jobs (snd (analyze_async env_queue_down request0 world_empty)) ''u1'')
       = Some (Some ''Failed to enqueue: Connection refused'')
   \<and> \<not> os_path_exists (snd (analyze_async env_queue_down request0 world_empty))
         (upload_path env_queue_down (uuid4 env_queue_down))
   \<and> remove_fails env_queue_down_remove_fails
        (upload_path env_queue_down_remove_fails (uuid4 env_queue_down_remove_fails))
   \<and> os_path_isfile (snd (analyze_async env_queue_down_remove_fails request0 world_empty))
        (upload_path env_queue_down_remove_fails (uuid4 env_queue_down_remove_fails))"
proof -
  have pdf: "\<not> not_a_pdf (upload_filename request0)"
    by (simp add: not_a_pdf_def request0_def lower_def lower_char_def endswith_def)
  have saved: "save_upload env_queue_down (upload_path env_queue_down (uuid4 env_queue_down))
      (upload_content request0) = Saved"
    by (simp add: env_queue_down_def env0_def)
  have raised: "delay_outcome env_queue_down = RaisedException ''Connection refused''"
    by (simp add: env_queue_down_def)
  have ok: "\<not> remove_fails env_queue_down (upload_path env_queue_down (uuid4 env_queue_down))"
    by (simp add: env_queue_down_def env0_def)
  have ident: "uuid4 env_queue_down = ''u1''"
    by (simp add: env_queue_down_def env0_def)
  have saved': "save_upload env_queue_down_remove_fails
      (upload_path env_queue_down_remove_fails (uuid4 env_queue_down_remove_fails))
      (upload_content request0) = Saved"
    by (simp add: env_queue_down_remove_fails_def env_queue_down_def env0_def)
  have raised': "delay_outcome env_queue_down_remove_fails = RaisedException ''Connection refused''"
    by (simp add: env_queue_down_remove_fails_def env_queue_down_def)
  have fails: "remove_fails env_queue_down_remove_fails
      (upload_path env_queue_down_remove_fails (uuid4 env_queue_down_remove_fails))"
    by (simp add: env_queue_down_remove_fails_def)
  from enqueue_failure_marks_failed [OF pdf saved raised surjective_pairing, of world_empty]
    ok
  have removed: "fst (analyze_async env_queue_down request0 world_empty)
       = Inl (HTTPException 503 ''Queue unavailable; try /analyze/sync'')
   \<and> map_option error_message (jobs (snd (analyze_async env_queue_down request0 world_empty)) ''u1'')
       = Some (Some ''Failed to enqueue: Connection refused'')
   \<and> \<not> os_path_exists (snd (analyze_async env_queue_down request0 world_empty))
         (upload_path env_queue_down (uuid4 env_queue_down))"
    by (simp add: ident)
  from enqueue_failure_marks_failed [OF pdf saved' raised' surjective_pairing, of world_empty]
    fails
  have left: "os_path_isfile (snd (analyze_async env_queue_down_remove_fails request0 world_empty))
        (upload_path env_queue_down_remove_fails (uuid4 env_queue_down_remove_fails))"
    by simp
  from pdf saved raised ok removed fails left show ?thesis by blast
qed

end
